theory Spec2Isabelle
  imports Complex_Main "HOL-Library.Sublist" "HOL-Library.AList"
begin

section \<open>Strings and HTTP headers\<close>

text \<open>
  Go strings are byte sequences; they are modelled as \<open>string\<close> (a list of 8-bit
  characters). The functions of package \<open>strings\<close> that map or fold case work byte
  by byte as long as the bytes are ASCII, and on the runes of the string (through
  package \<open>unicode\<close>) from the first byte that is not. The byte part is modelled
  here; the rune part belongs to the standard library and is a parameter of each
  function, so that what is proved holds for non-ASCII strings too.
\<close>

definition isUpperByte :: "char \<Rightarrow> bool" where
  "isUpperByte c = (65 \<le> (of_char c :: nat) \<and> (of_char c :: nat) \<le> 90)"

definition isLowerByte :: "char \<Rightarrow> bool" where
  "isLowerByte c = (97 \<le> (of_char c :: nat) \<and> (of_char c :: nat) \<le> 122)"

definition toLowerByte :: "char \<Rightarrow> char" where
  "toLowerByte c = (if isUpperByte c then char_of ((of_char c :: nat) + 32) else c)"

definition toUpperByte :: "char \<Rightarrow> char" where
  "toUpperByte c = (if isLowerByte c then char_of ((of_char c :: nat) - 32) else c)"

definition isASCII :: "string \<Rightarrow> bool" where
  "isASCII s = list_all (\<lambda>c. (of_char c :: nat) < 128) s"

text \<open>
  \<open>strings.ToLower\<close> and \<open>strings.ToUpper\<close>: a string of ASCII bytes is mapped byte by
  byte; any other string goes to \<open>strings.Map(unicode.ToLower, s)\<close> (or \<open>ToUpper\<close>),
  the parameter \<open>mapRunes\<close>.
\<close>

definition ToLower :: "(string \<Rightarrow> string) \<Rightarrow> string \<Rightarrow> string" where
  "ToLower mapRunes s = (if isASCII s then map toLowerByte s else mapRunes s)"

definition ToUpper :: "(string \<Rightarrow> string) \<Rightarrow> string \<Rightarrow> string" where
  "ToUpper mapRunes s = (if isASCII s then map toUpperByte s else mapRunes s)"

text \<open>
  \<open>strings.EqualFold\<close>: the strings are compared byte by byte, two ASCII bytes
  being equal when they are the same or the upper and the lower case of one letter;
  at the first position where one of the two bytes is not ASCII the rest of the two
  strings is compared rune by rune under Unicode case folding, the parameter
  \<open>foldRunes\<close>. Strings of different lengths whose common part is ASCII differ.
\<close>

fun EqualFold :: "(string \<Rightarrow> string \<Rightarrow> bool) \<Rightarrow> string \<Rightarrow> string \<Rightarrow> bool" where
  "EqualFold foldRunes [] [] = True"
| "EqualFold foldRunes (sr # s) (tr # t) =
     (if 128 \<le> (of_char sr :: nat) \<or> 128 \<le> (of_char tr :: nat) then foldRunes (sr # s) (tr # t)
      else if tr = sr then EqualFold foldRunes s t
      else if (of_char tr :: nat) < of_char sr then
        (if isUpperByte tr \<and> (of_char sr :: nat) = of_char tr + 32
         then EqualFold foldRunes s t else False)
      else
        (if isUpperByte sr \<and> (of_char tr :: nat) = of_char sr + 32
         then EqualFold foldRunes s t else False))"
| "EqualFold foldRunes s t = False"

text \<open>\<open>strings.HasPrefix s p\<close>: \<open>s\<close> begins with \<open>p\<close>.\<close>

definition HasPrefix :: "string \<Rightarrow> string \<Rightarrow> bool" where
  "HasPrefix s p = prefix p s"

text \<open>\<open>strings.Contains s substr\<close>: \<open>substr\<close> occurs in \<open>s\<close> as a contiguous run of bytes.\<close>

fun Contains :: "string \<Rightarrow> string \<Rightarrow> bool" where
  "Contains [] substr = (substr = [])"
| "Contains (c # s) substr = (prefix substr (c # s) \<or> Contains s substr)"

text \<open>
  \<open>http.Header\<close> is \<open>map[string][]string\<close>. A Go map has each key once and no
  order of its own, so a header set is an association list read through \<open>map_of\<close>;
  where a loop ranges over the map, the list order stands for the order the
  runtime happens to choose.
\<close>

type_synonym header = "(string \<times> string list) list"

text \<open>
  \<open>textproto.CanonicalMIMEHeaderKey\<close>: a key made of token bytes only gets an upper
  case letter first and after every dash and lower case letters elsewhere; any
  other key is returned as it is.
\<close>

definition validHeaderFieldByte :: "char \<Rightarrow> bool" where
  "validHeaderFieldByte c =
     (isUpperByte c \<or> isLowerByte c \<or> (48 \<le> (of_char c :: nat) \<and> (of_char c :: nat) \<le> 57)
      \<or> (of_char c :: nat) \<in> {33, 35, 36, 37, 38, 39, 42, 43, 45, 46, 94, 95, 96, 124, 126})"

fun canonicalLoop :: "bool \<Rightarrow> string \<Rightarrow> string" where
  "canonicalLoop upper [] = []"
| "canonicalLoop upper (c # cs) =
     (let c' = (if upper \<and> isLowerByte c then toUpperByte c
                else if \<not> upper \<and> isUpperByte c then toLowerByte c
                else c)
      in c' # canonicalLoop (c' = CHR ''-'') cs)"

definition CanonicalMIMEHeaderKey :: "string \<Rightarrow> string" where
  "CanonicalMIMEHeaderKey s = (if list_all validHeaderFieldByte s then canonicalLoop True s else s)"

text \<open>
  \<open>Header.Get key\<close>: the first value stored under the canonical form of \<open>key\<close>, and
  the empty string when there is none.
\<close>

definition Get :: "header \<Rightarrow> string \<Rightarrow> string" where
  "Get h key =
     (case map_of h (CanonicalMIMEHeaderKey key) of
        None \<Rightarrow> []
      | Some [] \<Rightarrow> []
      | Some (v # _) \<Rightarrow> v)"

text \<open>The part of \<open>http.Request\<close> the handler reads.\<close>

record request =
  Header :: header

section \<open>The libraries\<close>

text \<open>
  Go errors as values. The first six are the errors handler.go builds with
  \<open>fmt.Errorf\<close> (three of them wrap the error of a library call); \<open>LibError\<close> is an
  error returned by a library (\<open>net/url\<close>, the websocket package), and the last two
  are the values of \<open>ctx.Err()\<close>.
\<close>

datatype error =
    ErrNoBackendPath
  | ErrNoBackend
  | ErrNoHost
  | ErrParseBackendHost string error
  | ErrParseWebSocketURL error
  | ErrConnect string error
  | LibError string
  | Canceled
  | DeadlineExceeded

text \<open>
  The fields of \<open>url.URL\<close> the code reads or writes, and the ones a plain address
  has. \<open>url.Parse\<close> and \<open>URL.String\<close> belong to the standard library and are
  parameters of the model.
\<close>

record url =
  Scheme :: string
  URLHost :: string
  Path :: string
  RawQuery :: string

text \<open>\<open>time.Duration\<close> counts nanoseconds.\<close>

type_synonym duration = int

text \<open>The compression modes of the websocket package that the handler chooses between.\<close>

datatype compressionMode = CompressionNoContextTakeover | CompressionContextTakeover

text \<open>
  What the code calls and the model does not define: the rune parts of the case
  functions of \<open>strings\<close>, \<open>time.ParseDuration\<close> (\<open>None\<close> is its error), \<open>url.Parse\<close> and
  \<open>URL.String\<close>, and the handshake and the dial of the websocket package (\<open>None\<close> for
  success, \<open>Some\<close> for the error). Every statement below holds whatever these are.
\<close>

record library =
  unicode_ToLower :: "string \<Rightarrow> string"
  unicode_ToUpper :: "string \<Rightarrow> string"
  unicode_EqualFold :: "string \<Rightarrow> string \<Rightarrow> bool"
  time_ParseDuration :: "string \<Rightarrow> duration option"
  url_Parse :: "string \<Rightarrow> error + url"
  url_String :: "url \<Rightarrow> string"
  websocket_Accept :: "request \<Rightarrow> string list \<Rightarrow> compressionMode \<Rightarrow> error option"
  websocket_Dial :: "string \<Rightarrow> header \<Rightarrow> error option"

section \<open>Upgrade detection\<close>

text \<open>\<open>isWebSocketUpgrade\<close> of handler.go.\<close>

definition isWebSocketUpgrade :: "library \<Rightarrow> request \<Rightarrow> bool" where
  "isWebSocketUpgrade lib r =
     (let upgrade = ToLower (unicode_ToLower lib) (Get (Header r) ''Upgrade'');
          connection = ToLower (unicode_ToLower lib) (Get (Header r) ''Connection'');
          key = Get (Header r) ''Sec-WebSocket-Key''
      in upgrade = ''websocket'' \<and> Contains connection ''upgrade'' \<and> key \<noteq> [])"

text \<open>
  The contract in the words of the specification, for comparison with the code: the
  \<open>Connection\<close> header is read as a list of entries, over all its values and split
  at commas, with the blanks around an entry dropped, and one entry has to be the
  token \<open>upgrade\<close>.
\<close>

fun splitComma :: "string \<Rightarrow> string \<Rightarrow> string list" where
  "splitComma cur [] = [rev cur]"
| "splitComma cur (c # cs) =
     (if c = CHR '','' then rev cur # splitComma [] cs else splitComma (c # cur) cs)"

definition isBlank :: "char \<Rightarrow> bool" where
  "isBlank c = (c = CHR '' '' \<or> (of_char c :: nat) = 9)"

definition trimBlanks :: "string \<Rightarrow> string" where
  "trimBlanks s = rev (dropWhile isBlank (rev (dropWhile isBlank s)))"

definition headerValues :: "header \<Rightarrow> string \<Rightarrow> string list" where
  "headerValues h key = (case map_of h key of None \<Rightarrow> [] | Some vs \<Rightarrow> vs)"

definition connectionEntries :: "library \<Rightarrow> header \<Rightarrow> string list" where
  "connectionEntries lib h =
     concat (map (\<lambda>v. map (\<lambda>e. ToLower (unicode_ToLower lib) (trimBlanks e)) (splitComma [] v))
       (headerValues h ''Connection''))"

definition spec_IsUpgrade :: "library \<Rightarrow> request \<Rightarrow> bool" where
  "spec_IsUpgrade lib r =
     (ToLower (unicode_ToLower lib) (Get (Header r) ''Upgrade'') = ''websocket''
      \<and> ''upgrade'' \<in> set (connectionEntries lib (Header r))
      \<and> Get (Header r) ''Sec-WebSocket-Key'' \<noteq> [])"

section \<open>Endpoint configuration\<close>

text \<open>
  The host's configuration is loosely typed: \<open>config.ExtraConfig\<close> is
  \<open>map[string]interface{}\<close>. A dynamic value is one of the shapes the code asserts
  (\<open>float64\<close>, \<open>string\<close>, \<open>bool\<close>, \<open>[]interface{}\<close>, \<open>map[string]interface{}\<close>),
  \<open>nil\<close>, or a value of some other type, which fails every assertion. A \<open>float64\<close>
  is modelled by the real number it stands for (finite values only).
\<close>

datatype any =
    ANil
  | AFloat64 real
  | AString string
  | ABool bool
  | ASlice "any list"
  | AMap "(string \<times> any) list"
  | AOther

type_synonym extraConfig = "(string \<times> any) list"

text \<open>
  The conversions \<open>int(f)\<close> and \<open>int64(f)\<close> of a \<open>float64\<close> drop the fraction. The
  model has the exact integer; it is the code's value when that integer fits the
  integer type (\<open>fits 64\<close> for \<open>int64\<close>, and \<open>fits 32\<close> for \<open>int\<close>, which has at least
  32 bits). Outside that range Go leaves the result to the implementation, and
  nothing below is stated about a converted value that does not fit.
\<close>

definition int_of_float64 :: "real \<Rightarrow> int" where
  "int_of_float64 f = (if 0 \<le> f then \<lfloor>f\<rfloor> else \<lceil>f\<rceil>)"

definition fits :: "nat \<Rightarrow> int \<Rightarrow> bool" where
  "fits w i = (- (2 ^ (w - 1)) \<le> i \<and> i < 2 ^ (w - 1))"

definition Second :: duration where
  "Second = 1000000000"

definition ConfigNamespace :: string where
  "ConfigNamespace = ''websocket''"

record config =
  ReadBufferSize :: int
  WriteBufferSize :: int
  HandshakeTimeout :: duration
  Compression :: bool
  Subprotocols :: "string list"
  BackendScheme :: string
  MaxMessageSize :: int

text \<open>
  \<open>Config{}\<close>, the zero value, and the composite literal of defaults in
  \<open>parseWebSocketConfig\<close> (which leaves \<open>BackendScheme\<close> at its zero value). A \<open>nil\<close>
  slice and an empty slice are both the empty list.
\<close>

definition zeroConfig :: config where
  "zeroConfig =
     \<lparr>ReadBufferSize = 0, WriteBufferSize = 0, HandshakeTimeout = 0, Compression = False,
      Subprotocols = [], BackendScheme = [], MaxMessageSize = 0\<rparr>"

definition defaultConfig :: config where
  "defaultConfig =
     \<lparr>ReadBufferSize = 1024, WriteBufferSize = 1024, HandshakeTimeout = 10 * Second,
      Compression = False, Subprotocols = [], BackendScheme = [], MaxMessageSize = 2 ^ 20\<rparr>"

text \<open>
  The seven \<open>if\<close> statements of \<open>parseWebSocketConfig\<close>, one function each, in the
  order of the source. Indexing a Go map at a missing key gives \<open>nil\<close>, on which every
  type assertion fails, so a missing key and a value of another shape leave \<open>cfg\<close>
  as it is. \<open>time.ParseDuration\<close> belongs to the standard library and is a
  parameter: \<open>None\<close> is its error.
\<close>

definition setReadBufferSize :: "extraConfig \<Rightarrow> config \<Rightarrow> config" where
  "setReadBufferSize wsConfigMap cfg =
     (case map_of wsConfigMap ''read_buffer_size'' of
        Some (AFloat64 readBufferSize) \<Rightarrow> cfg\<lparr>ReadBufferSize := int_of_float64 readBufferSize\<rparr>
      | _ \<Rightarrow> cfg)"

definition setWriteBufferSize :: "extraConfig \<Rightarrow> config \<Rightarrow> config" where
  "setWriteBufferSize wsConfigMap cfg =
     (case map_of wsConfigMap ''write_buffer_size'' of
        Some (AFloat64 writeBufferSize) \<Rightarrow> cfg\<lparr>WriteBufferSize := int_of_float64 writeBufferSize\<rparr>
      | _ \<Rightarrow> cfg)"

definition setHandshakeTimeout :: "(string \<Rightarrow> duration option) \<Rightarrow> extraConfig \<Rightarrow> config \<Rightarrow> config" where
  "setHandshakeTimeout ParseDuration wsConfigMap cfg =
     (case map_of wsConfigMap ''handshake_timeout'' of
        Some (AString handshakeTimeoutStr) \<Rightarrow>
          (case ParseDuration handshakeTimeoutStr of
             Some d \<Rightarrow> cfg\<lparr>HandshakeTimeout := d\<rparr>
           | None \<Rightarrow> cfg)
      | _ \<Rightarrow> cfg)"

definition setCompression :: "extraConfig \<Rightarrow> config \<Rightarrow> config" where
  "setCompression wsConfigMap cfg =
     (case map_of wsConfigMap ''compression'' of
        Some (ABool compression) \<Rightarrow> cfg\<lparr>Compression := compression\<rparr>
      | _ \<Rightarrow> cfg)"

fun appendSubprotocols :: "any list \<Rightarrow> config \<Rightarrow> config" where
  "appendSubprotocols [] cfg = cfg"
| "appendSubprotocols (sp # subprotocols) cfg =
     appendSubprotocols subprotocols
       (case sp of
          AString spStr \<Rightarrow> cfg\<lparr>Subprotocols := Subprotocols cfg @ [spStr]\<rparr>
        | _ \<Rightarrow> cfg)"

definition setSubprotocols :: "extraConfig \<Rightarrow> config \<Rightarrow> config" where
  "setSubprotocols wsConfigMap cfg =
     (case map_of wsConfigMap ''subprotocols'' of
        Some (ASlice subprotocols) \<Rightarrow> appendSubprotocols subprotocols cfg
      | _ \<Rightarrow> cfg)"

definition setBackendScheme :: "extraConfig \<Rightarrow> config \<Rightarrow> config" where
  "setBackendScheme wsConfigMap cfg =
     (case map_of wsConfigMap ''backend_scheme'' of
        Some (AString backendScheme) \<Rightarrow> cfg\<lparr>BackendScheme := backendScheme\<rparr>
      | _ \<Rightarrow> cfg)"

definition setMaxMessageSize :: "extraConfig \<Rightarrow> config \<Rightarrow> config" where
  "setMaxMessageSize wsConfigMap cfg =
     (case map_of wsConfigMap ''max_message_size'' of
        Some (AFloat64 maxMessageSize) \<Rightarrow> cfg\<lparr>MaxMessageSize := int_of_float64 maxMessageSize\<rparr>
      | _ \<Rightarrow> cfg)"

text \<open>\<open>parseWebSocketConfig\<close> of handler.go: the configuration and whether one is present.\<close>

definition parseWebSocketConfig :: "(string \<Rightarrow> duration option) \<Rightarrow> extraConfig \<Rightarrow> config \<times> bool" where
  "parseWebSocketConfig ParseDuration extraConfig =
     (case map_of extraConfig ConfigNamespace of
        None \<Rightarrow> (zeroConfig, False)
      | Some (AMap wsConfigMap) \<Rightarrow>
          (let cfg = defaultConfig;
               cfg = setReadBufferSize wsConfigMap cfg;
               cfg = setWriteBufferSize wsConfigMap cfg;
               cfg = setHandshakeTimeout ParseDuration wsConfigMap cfg;
               cfg = setCompression wsConfigMap cfg;
               cfg = setSubprotocols wsConfigMap cfg;
               cfg = setBackendScheme wsConfigMap cfg;
               cfg = setMaxMessageSize wsConfigMap cfg
           in (cfg, True))
      | Some _ \<Rightarrow> (zeroConfig, False))"

text \<open>The strings among the entries of a \<open>[]interface{}\<close>, in order.\<close>

fun stringsOf :: "any list \<Rightarrow> string list" where
  "stringsOf [] = []"
| "stringsOf (AString s # l) = s # stringsOf l"
| "stringsOf (_ # l) = stringsOf l"

section \<open>Authentication headers\<close>

definition authHeaderNames :: "string list" where
  "authHeaderNames =
     [''X-User-Id'', ''X-User-Uid'', ''X-User-Email'', ''X-User-Groups'', ''X-User-Type'']"

definition authHeaderPrefixes :: "string list" where
  "authHeaderPrefixes = [''X-User-'', ''X-Auth-'', ''X-Group-'']"

text \<open>
  \<open>extractAuthHeaders\<close> of handler.go. The result, a \<open>map[string]string\<close>, is an
  association list with each key once; \<open>authHeaders[key] = values[0]\<close> is
  \<open>AList.update\<close>. The two inner loops come first, then the loop over the headers.
\<close>

fun exactMatches ::
  "library \<Rightarrow> string \<Rightarrow> string list \<Rightarrow> string list \<Rightarrow> (string \<times> string) list
     \<Rightarrow> (string \<times> string) list" where
  "exactMatches lib key values [] authHeaders = authHeaders"
| "exactMatches lib key values (authHeader # names) authHeaders =
     exactMatches lib key values names
       (if EqualFold (unicode_EqualFold lib) key authHeader \<and> length values > 0
        then AList.update key (values ! 0) authHeaders
        else authHeaders)"

fun prefixMatches ::
  "library \<Rightarrow> string \<Rightarrow> string list \<Rightarrow> string list \<Rightarrow> (string \<times> string) list
     \<Rightarrow> (string \<times> string) list" where
  "prefixMatches lib key values [] authHeaders = authHeaders"
| "prefixMatches lib key values (pref # prefs) authHeaders =
     prefixMatches lib key values prefs
       (if HasPrefix (ToUpper (unicode_ToUpper lib) key) (ToUpper (unicode_ToUpper lib) pref)
           \<and> length values > 0
        then AList.update key (values ! 0) authHeaders
        else authHeaders)"

fun rangeHeaders :: "library \<Rightarrow> header \<Rightarrow> (string \<times> string) list \<Rightarrow> (string \<times> string) list" where
  "rangeHeaders lib [] authHeaders = authHeaders"
| "rangeHeaders lib ((key, values) # headers) authHeaders =
     rangeHeaders lib headers
       (prefixMatches lib key values authHeaderPrefixes
          (exactMatches lib key values authHeaderNames authHeaders))"

definition extractAuthHeaders :: "library \<Rightarrow> header \<Rightarrow> (string \<times> string) list" where
  "extractAuthHeaders lib headers = rangeHeaders lib headers []"

section \<open>Backend address resolution\<close>

record backend =
  Host :: "string list"
  URLPattern :: string

record endpointConfig =
  Endpoint :: string
  Backend :: "backend list"
  ExtraConfig :: extraConfig

definition defaultMappings :: "(string \<times> string) list" where
  "defaultMappings = [(''albus'', ''localhost:3000'')]"

text \<open>
  \<open>deriveWebSocketURL\<close> of handler.go. The process-wide \<open>globalBackendRegistry\<close> is
  a parameter: \<open>None\<close> is the \<open>nil\<close> pointer, \<open>Some\<close> holds the \<open>Backends\<close> map.
\<close>

definition deriveWebSocketURL ::
  "(string \<times> string) list option \<Rightarrow> string \<Rightarrow> string \<Rightarrow> string \<Rightarrow> error + string" where
  "deriveWebSocketURL globalBackendRegistry backendName backendPath forceScheme =
     (case (case globalBackendRegistry of
              None \<Rightarrow> None
            | Some backends \<Rightarrow> map_of backends backendName) of
        Some registryURL \<Rightarrow> Inr (registryURL @ backendPath)
      | None \<Rightarrow>
          (let host = (case map_of defaultMappings backendName of
                         Some h \<Rightarrow> h
                       | None \<Rightarrow> ''localhost:8080'');
               scheme = (if forceScheme \<noteq> [] then forceScheme else ''ws'');
               wsURL = scheme @ ''://'' @ host @ backendPath
           in Inr wsURL))"

text \<open>
  The scheme clause of the contract in the words of the specification, for
  comparison with the code: the scheme of the resolved address is \<open>ws\<close> unless a
  forced scheme is supplied, so the address begins with that scheme and \<open>://\<close>.
\<close>

definition spec_hasScheme :: "string \<Rightarrow> string \<Rightarrow> bool" where
  "spec_hasScheme forceScheme wsURL =
     prefix ((if forceScheme \<noteq> [] then forceScheme else ''ws'') @ ''://'') wsURL"

text \<open>\<open>convertHTTPToWebSocketURL\<close> of handler.go.\<close>

definition convertHTTPToWebSocketURL ::
  "(string \<Rightarrow> error + url) \<Rightarrow> string \<Rightarrow> string \<Rightarrow> string \<Rightarrow> error + string" where
  "convertHTTPToWebSocketURL Parse httpHost urlPattern forceScheme =
     (case Parse httpHost of
        Inl err \<Rightarrow> Inl (ErrParseBackendHost httpHost err)
      | Inr parsedURL \<Rightarrow>
          (let scheme = (if Scheme parsedURL = ''https'' then ''wss'' else ''ws'');
               scheme = (if forceScheme \<noteq> [] then forceScheme else scheme);
               wsURL = scheme @ ''://'' @ URLHost parsedURL @ urlPattern
           in Inr wsURL))"

section \<open>The session\<close>

text \<open>
  What a handler does is the list of its calls on the outside world, in order:
  the JSON response \<open>c.JSON(code, {"error": msg})\<close>, the calls of the websocket
  package (\<open>Accept\<close> with its subprotocols and compression mode, \<open>Dial\<close> with the
  address and the request headers, \<open>SetReadLimit\<close>, \<open>Close\<close> with its status code
  and reason), the \<open>cancel\<close> of the connection's context, and the relay phase.
  Log lines are left out. Whether \<open>Accept\<close> and \<open>Dial\<close> succeed is up to the
  library and the network: they are parameters, \<open>None\<close> for success and \<open>Some\<close> for
  the error. The relay phase runs two tasks concurrently and waits for the first
  to end; it is recorded as the one event \<open>EvRelay\<close>, and the loop each task runs
  is \<open>proxyMessages\<close> below.
\<close>

datatype conn = ClientConn | BackendConn

datatype event =
    EvJSON nat string
  | EvAccept "string list" compressionMode
  | EvSetReadLimit conn int
  | EvDial string header
  | EvClose conn nat string
  | EvCancel
  | EvRelay

definition StatusNormalClosure :: nat where
  "StatusNormalClosure = 1000"

definition StatusInternalError :: nat where
  "StatusInternalError = 1011"

definition StatusBadRequest :: nat where
  "StatusBadRequest = 400"

definition StatusInternalServerError :: nat where
  "StatusInternalServerError = 500"

text \<open>The part of \<open>gin.Context\<close> the handler reads.\<close>

record ginContext =
  Request :: request

text \<open>
  \<open>connectToBackend\<close> of handler.go, in two parts: the address (the function up to
  the scheme override), then the dial.
\<close>

definition connectToBackend_wsURL ::
  "library \<Rightarrow> (string \<times> string) list option \<Rightarrow> endpointConfig \<Rightarrow> config \<Rightarrow> error + string" where
  "connectToBackend_wsURL lib globalBackendRegistry cfg wsConfig =
     (case
        (case map_of (ExtraConfig cfg) ''backend'' of
           Some (AString backendName) \<Rightarrow>
             (case map_of (ExtraConfig cfg) ''backend_path'' of
                Some (AString backendPath) \<Rightarrow>
                  deriveWebSocketURL globalBackendRegistry backendName backendPath
                    (BackendScheme wsConfig)
              | _ \<Rightarrow> Inl ErrNoBackendPath)
         | _ \<Rightarrow>
             (case Backend cfg of
                [] \<Rightarrow> Inl ErrNoBackend
              | backend # _ \<Rightarrow>
                  (case Host backend of
                     [] \<Rightarrow> Inl ErrNoHost
                   | httpHost # _ \<Rightarrow>
                       convertHTTPToWebSocketURL (url_Parse lib) httpHost (URLPattern backend)
                         (BackendScheme wsConfig))))
      of
        Inl err \<Rightarrow> Inl err
      | Inr wsURL \<Rightarrow>
          (if BackendScheme wsConfig \<noteq> [] then
             (case url_Parse lib wsURL of
                Inl err \<Rightarrow> Inl (ErrParseWebSocketURL err)
              | Inr parsedURL \<Rightarrow>
                  Inr (url_String lib (parsedURL\<lparr>Scheme := BackendScheme wsConfig\<rparr>)))
           else Inr wsURL))"

definition connectToBackend ::
  "library \<Rightarrow> (string \<times> string) list option \<Rightarrow> endpointConfig \<Rightarrow> config
     \<Rightarrow> (string \<times> string) list \<Rightarrow> event list \<times> (error + unit)" where
  "connectToBackend lib globalBackendRegistry cfg wsConfig authHeaders =
     (case connectToBackend_wsURL lib globalBackendRegistry cfg wsConfig of
        Inl err \<Rightarrow> ([], Inl err)
      | Inr wsURL \<Rightarrow>
          (let headers = map (\<lambda>(key, value). (key, [value])) authHeaders in
           case websocket_Dial lib wsURL headers of
             Some err \<Rightarrow> ([EvDial wsURL headers], Inl (ErrConnect wsURL err))
           | None \<Rightarrow>
               ([EvDial wsURL headers]
                  @ (if MaxMessageSize wsConfig > 0
                     then [EvSetReadLimit BackendConn (MaxMessageSize wsConfig)] else []),
                Inr ())))"

text \<open>
  \<open>handleConnectionLifecycle\<close> of handler.go. The deferred calls run when the
  function returns, last registered first: the backend's \<open>Close\<close>, then \<open>cancel\<close>.
\<close>

definition handleConnectionLifecycle ::
  "library \<Rightarrow> (string \<times> string) list option \<Rightarrow> endpointConfig \<Rightarrow> config
     \<Rightarrow> (string \<times> string) list \<Rightarrow> event list" where
  "handleConnectionLifecycle lib globalBackendRegistry cfg wsConfig authHeaders =
     (case connectToBackend lib globalBackendRegistry cfg wsConfig authHeaders of
        (evs, Inl err) \<Rightarrow>
          evs @ [EvClose ClientConn StatusInternalError ''Backend connection failed'', EvCancel]
      | (evs, Inr _) \<Rightarrow>
          evs @ [EvRelay, EvClose BackendConn StatusNormalClosure ''Connection closed'', EvCancel])"

text \<open>
  \<open>handleWebSocketConnection\<close> of handler.go. The client's deferred \<open>Close\<close> runs
  after the lifecycle has returned.
\<close>

definition handleWebSocketConnection ::
  "library \<Rightarrow> (string \<times> string) list option \<Rightarrow> ginContext \<Rightarrow> endpointConfig \<Rightarrow> 'p \<Rightarrow> config
     \<Rightarrow> (string \<times> string) list \<Rightarrow> event list" where
  "handleWebSocketConnection lib globalBackendRegistry c cfg p wsConfig authHeaders =
     (if length (Backend cfg) = 0 then
        [EvJSON StatusInternalServerError ''No backend configured'']
      else
        (let subprotocols = Subprotocols wsConfig;
             compressionMode = (if Compression wsConfig then CompressionContextTakeover
                                else CompressionNoContextTakeover)
         in case websocket_Accept lib (Request c) subprotocols compressionMode of
              Some err \<Rightarrow>
                [EvAccept subprotocols compressionMode,
                 EvJSON StatusBadRequest ''WebSocket upgrade failed'']
            | None \<Rightarrow>
                [EvAccept subprotocols compressionMode]
                  @ (if MaxMessageSize wsConfig > 0
                     then [EvSetReadLimit ClientConn (MaxMessageSize wsConfig)] else [])
                  @ handleConnectionLifecycle lib globalBackendRegistry cfg wsConfig authHeaders
                  @ [EvClose ClientConn StatusInternalError ''Internal error'']))"

section \<open>The handler wrapper\<close>

text \<open>
  \<open>HandlerWrapper\<close> of handler.go: from the host's handler factory to a handler
  factory. A handler maps the request context to what it does.
\<close>

definition HandlerWrapper ::
  "library \<Rightarrow> (string \<times> string) list option
     \<Rightarrow> (endpointConfig \<Rightarrow> 'p \<Rightarrow> ginContext \<Rightarrow> event list)
     \<Rightarrow> endpointConfig \<Rightarrow> 'p \<Rightarrow> ginContext \<Rightarrow> event list" where
  "HandlerWrapper lib globalBackendRegistry standardHandlerFactory cfg p =
     (case parseWebSocketConfig (time_ParseDuration lib) (ExtraConfig cfg) of
        (wsConfig, True) \<Rightarrow>
          (\<lambda>c. if \<not> isWebSocketUpgrade lib (Request c) then standardHandlerFactory cfg p c
                else (let authHeaders = extractAuthHeaders lib (Header (Request c))
                      in handleWebSocketConnection lib globalBackendRegistry c cfg p wsConfig
                           authHeaders))
      | (wsConfig, False) \<Rightarrow> standardHandlerFactory cfg p)"

section \<open>The message relay\<close>

text \<open>
  \<open>proxyMessages\<close> of handler.go runs until the context is cancelled or a call
  fails, so it need not return. What the surroundings do in pass \<open>i\<close> of the loop
  is \<open>env i\<close>: the value of \<open>ctx.Err()\<close> when \<open>ctx.Done()\<close> is ready at the \<open>select\<close>
  (\<open>None\<close> when it is not, and the \<open>default\<close> branch runs), what \<open>src.Read\<close> does,
  and what \<open>dest.Write\<close> does with the message. A call may block for ever. The
  function returns the error together with the arguments of all the \<open>dest.Write\<close>
  calls it made, in order; \<open>None\<close> means that it never returns.
\<close>

datatype messageType = MessageText | MessageBinary

datatype readOutcome = ReadBlocks | ReadFails error | ReadReturns messageType string

datatype writeOutcome = WriteBlocks | WriteFails error | WriteReturns

record iteration =
  ctxErr :: "error option"
  readResult :: readOutcome
  writeResult :: writeOutcome

partial_function (option) proxyMessages ::
  "(nat \<Rightarrow> iteration) \<Rightarrow> nat \<Rightarrow> (messageType \<times> string) list
     \<Rightarrow> (error \<times> (messageType \<times> string) list) option" where
  "proxyMessages env i writes =
     (case ctxErr (env i) of
        Some err \<Rightarrow> Some (err, writes)
      | None \<Rightarrow>
          (case readResult (env i) of
             ReadBlocks \<Rightarrow> None
           | ReadFails err \<Rightarrow> Some (err, writes)
           | ReadReturns messageType message \<Rightarrow>
               (case writeResult (env i) of
                  WriteBlocks \<Rightarrow> None
                | WriteFails err \<Rightarrow> Some (err, writes @ [(messageType, message)])
                | WriteReturns \<Rightarrow>
                    proxyMessages env (Suc i) (writes @ [(messageType, message)]))))"

text \<open>
  The messages \<open>src.Read\<close> returns in the passes before \<open>n\<close>, in order, and the
  passes that forward a message and go on: the context is live, \<open>Read\<close> returns a
  message and \<open>Write\<close> returns without error.
\<close>

definition messagesRead :: "(nat \<Rightarrow> iteration) \<Rightarrow> nat \<Rightarrow> (messageType \<times> string) list" where
  "messagesRead env n =
     concat (map (\<lambda>k. case readResult (env k) of
                          ReadReturns messageType message \<Rightarrow> [(messageType, message)]
                        | _ \<Rightarrow> []) [0..<n])"

definition forwards :: "iteration \<Rightarrow> bool" where
  "forwards it =
     (ctxErr it = None
      \<and> (case readResult it of ReadReturns messageType message \<Rightarrow> True | _ \<Rightarrow> False)
      \<and> writeResult it = WriteReturns)"

section \<open>Sample surroundings\<close>

text \<open>
  Concrete stand-ins for the parameters of the model, on which the theorems below
  are instantiated. \<open>sampleParse\<close> and \<open>sampleString\<close> play \<open>net/url\<close> on
  addresses of the form \<open>scheme://host/path\<close>; \<open>sampleLibrary\<close> fixes whether the
  handshake and the dial succeed, its \<open>time.ParseDuration\<close> knows \<open>30s\<close>, and its
  rune functions leave a string as it is (the sample strings are ASCII, on which
  they are not called);
  \<open>sampleStandard\<close> is a host handler factory; \<open>sampleRun\<close> is a run of the relay in
  which two messages arrive before the context is cancelled.
\<close>

fun splitScheme :: "string \<Rightarrow> string \<Rightarrow> (string \<times> string) option" where
  "splitScheme acc (a # b # c # rest) =
     (if a = CHR '':'' \<and> b = CHR ''/'' \<and> c = CHR ''/'' then Some (rev acc, rest)
      else splitScheme (a # acc) (b # c # rest))"
| "splitScheme acc _ = None"

definition sampleParse :: "string \<Rightarrow> error + url" where
  "sampleParse s =
     (case splitScheme [] s of
        None \<Rightarrow> Inl (LibError ''missing protocol scheme'')
      | Some (scheme, rest) \<Rightarrow>
          Inr \<lparr>Scheme = map toLowerByte scheme, URLHost = takeWhile (\<lambda>c. c \<noteq> CHR ''/'') rest,
               Path = dropWhile (\<lambda>c. c \<noteq> CHR ''/'') rest, RawQuery = []\<rparr>)"

definition sampleString :: "url \<Rightarrow> string" where
  "sampleString u = Scheme u @ ''://'' @ URLHost u @ Path u"

definition sampleLibrary :: "bool \<Rightarrow> bool \<Rightarrow> library" where
  "sampleLibrary acceptOk dialOk =
     \<lparr>unicode_ToLower = (\<lambda>s. s),
      unicode_ToUpper = (\<lambda>s. s),
      unicode_EqualFold = (\<lambda>s t. s = t),
      time_ParseDuration = (\<lambda>s. if s = ''30s'' then Some (30 * Second) else None),
      url_Parse = sampleParse,
      url_String = sampleString,
      websocket_Accept = (\<lambda>r subprotocols mode. if acceptOk then None else Some (LibError ''handshake'')),
      websocket_Dial = (\<lambda>wsURL headers. if dialOk then None else Some (LibError ''dial''))\<rparr>"

definition sampleEndpoint :: endpointConfig where
  "sampleEndpoint =
     \<lparr>Endpoint = ''/ws/chat'',
      Backend = [\<lparr>Host = [''https://chat.internal:8443'', ''https://chat2.internal:8443''],
                  URLPattern = ''/v1/chat''\<rparr>],
      ExtraConfig = [(''websocket'', AMap [(''compression'', ABool True)])]\<rparr>"

definition sampleStandard :: "endpointConfig \<Rightarrow> unit \<Rightarrow> ginContext \<Rightarrow> event list" where
  "sampleStandard cfg p c = [EvJSON 200 (Endpoint cfg)]"

definition sampleUpgrade :: ginContext where
  "sampleUpgrade =
     \<lparr>Request = \<lparr>Header = [(''Upgrade'', [''websocket'']), (''Connection'', [''Upgrade'']),
        (''Sec-Websocket-Key'', [''dGhlIHNhbXBsZSBub25jZQ==''])]\<rparr>\<rparr>"

definition sampleRun :: "nat \<Rightarrow> iteration" where
  "sampleRun k =
     (if k = 0 then
        \<lparr>ctxErr = None, readResult = ReadReturns MessageText ''hello'', writeResult = WriteReturns\<rparr>
      else if k = 1 then
        \<lparr>ctxErr = None, readResult = ReadReturns MessageBinary ''bytes'', writeResult = WriteReturns\<rparr>
      else
        \<lparr>ctxErr = Some Canceled, readResult = ReadBlocks, writeResult = WriteBlocks\<rparr>)"

section \<open>Facts about the string functions\<close>

lemma Contains_sublist: "Contains s substr = sublist substr s"
  by (induction s) (auto simp: sublist_Cons_right)

lemma canonical_Upgrade: "CanonicalMIMEHeaderKey ''Upgrade'' = ''Upgrade''"
  by code_simp

lemma canonical_Connection: "CanonicalMIMEHeaderKey ''Connection'' = ''Connection''"
  by code_simp

lemma canonical_Key: "CanonicalMIMEHeaderKey ''Sec-WebSocket-Key'' = ''Sec-Websocket-Key''"
  by code_simp

lemma ToLower_Nil: "ToLower mapRunes [] = []"
  by (simp add: ToLower_def isASCII_def)

lemma Get_first:
  "Get h key = (case map_of h (CanonicalMIMEHeaderKey key) of Some (v # vs) \<Rightarrow> v | _ \<Rightarrow> [])"
  by (simp add: Get_def split: option.splits list.splits)

section \<open>Facts about configuration parsing\<close>

lemma appendSubprotocols_eq:
  "appendSubprotocols l cfg = cfg\<lparr>Subprotocols := Subprotocols cfg @ stringsOf l\<rparr>"
  by (induction l arbitrary: cfg rule: stringsOf.induct) simp_all

lemma setReadBufferSize_fields:
  "ReadBufferSize (setReadBufferSize m c) =
     (case map_of m ''read_buffer_size'' of Some (AFloat64 f) \<Rightarrow> int_of_float64 f
      | _ \<Rightarrow> ReadBufferSize c)"
  "WriteBufferSize (setReadBufferSize m c) = WriteBufferSize c"
  "HandshakeTimeout (setReadBufferSize m c) = HandshakeTimeout c"
  "Compression (setReadBufferSize m c) = Compression c"
  "Subprotocols (setReadBufferSize m c) = Subprotocols c"
  "BackendScheme (setReadBufferSize m c) = BackendScheme c"
  "MaxMessageSize (setReadBufferSize m c) = MaxMessageSize c"
  by (simp_all add: setReadBufferSize_def split: option.splits any.splits)

lemma setWriteBufferSize_fields:
  "ReadBufferSize (setWriteBufferSize m c) = ReadBufferSize c"
  "WriteBufferSize (setWriteBufferSize m c) =
     (case map_of m ''write_buffer_size'' of Some (AFloat64 f) \<Rightarrow> int_of_float64 f
      | _ \<Rightarrow> WriteBufferSize c)"
  "HandshakeTimeout (setWriteBufferSize m c) = HandshakeTimeout c"
  "Compression (setWriteBufferSize m c) = Compression c"
  "Subprotocols (setWriteBufferSize m c) = Subprotocols c"
  "BackendScheme (setWriteBufferSize m c) = BackendScheme c"
  "MaxMessageSize (setWriteBufferSize m c) = MaxMessageSize c"
  by (simp_all add: setWriteBufferSize_def split: option.splits any.splits)

lemma setHandshakeTimeout_fields:
  "ReadBufferSize (setHandshakeTimeout pd m c) = ReadBufferSize c"
  "WriteBufferSize (setHandshakeTimeout pd m c) = WriteBufferSize c"
  "HandshakeTimeout (setHandshakeTimeout pd m c) =
     (case map_of m ''handshake_timeout'' of
        Some (AString s) \<Rightarrow> (case pd s of Some d \<Rightarrow> d | None \<Rightarrow> HandshakeTimeout c)
      | _ \<Rightarrow> HandshakeTimeout c)"
  "Compression (setHandshakeTimeout pd m c) = Compression c"
  "Subprotocols (setHandshakeTimeout pd m c) = Subprotocols c"
  "BackendScheme (setHandshakeTimeout pd m c) = BackendScheme c"
  "MaxMessageSize (setHandshakeTimeout pd m c) = MaxMessageSize c"
  by (simp_all add: setHandshakeTimeout_def split: option.splits any.splits)

lemma setCompression_fields:
  "ReadBufferSize (setCompression m c) = ReadBufferSize c"
  "WriteBufferSize (setCompression m c) = WriteBufferSize c"
  "HandshakeTimeout (setCompression m c) = HandshakeTimeout c"
  "Compression (setCompression m c) =
     (case map_of m ''compression'' of Some (ABool b) \<Rightarrow> b | _ \<Rightarrow> Compression c)"
  "Subprotocols (setCompression m c) = Subprotocols c"
  "BackendScheme (setCompression m c) = BackendScheme c"
  "MaxMessageSize (setCompression m c) = MaxMessageSize c"
  by (simp_all add: setCompression_def split: option.splits any.splits)

lemma setSubprotocols_fields:
  "ReadBufferSize (setSubprotocols m c) = ReadBufferSize c"
  "WriteBufferSize (setSubprotocols m c) = WriteBufferSize c"
  "HandshakeTimeout (setSubprotocols m c) = HandshakeTimeout c"
  "Compression (setSubprotocols m c) = Compression c"
  "Subprotocols (setSubprotocols m c) =
     (case map_of m ''subprotocols'' of Some (ASlice l) \<Rightarrow> Subprotocols c @ stringsOf l
      | _ \<Rightarrow> Subprotocols c)"
  "BackendScheme (setSubprotocols m c) = BackendScheme c"
  "MaxMessageSize (setSubprotocols m c) = MaxMessageSize c"
  by (simp_all add: setSubprotocols_def appendSubprotocols_eq split: option.splits any.splits)

lemma setBackendScheme_fields:
  "ReadBufferSize (setBackendScheme m c) = ReadBufferSize c"
  "WriteBufferSize (setBackendScheme m c) = WriteBufferSize c"
  "HandshakeTimeout (setBackendScheme m c) = HandshakeTimeout c"
  "Compression (setBackendScheme m c) = Compression c"
  "Subprotocols (setBackendScheme m c) = Subprotocols c"
  "BackendScheme (setBackendScheme m c) =
     (case map_of m ''backend_scheme'' of Some (AString s) \<Rightarrow> s | _ \<Rightarrow> BackendScheme c)"
  "MaxMessageSize (setBackendScheme m c) = MaxMessageSize c"
  by (simp_all add: setBackendScheme_def split: option.splits any.splits)

lemma setMaxMessageSize_fields:
  "ReadBufferSize (setMaxMessageSize m c) = ReadBufferSize c"
  "WriteBufferSize (setMaxMessageSize m c) = WriteBufferSize c"
  "HandshakeTimeout (setMaxMessageSize m c) = HandshakeTimeout c"
  "Compression (setMaxMessageSize m c) = Compression c"
  "Subprotocols (setMaxMessageSize m c) = Subprotocols c"
  "BackendScheme (setMaxMessageSize m c) = BackendScheme c"
  "MaxMessageSize (setMaxMessageSize m c) =
     (case map_of m ''max_message_size'' of Some (AFloat64 f) \<Rightarrow> int_of_float64 f
      | _ \<Rightarrow> MaxMessageSize c)"
  by (simp_all add: setMaxMessageSize_def split: option.splits any.splits)

lemmas set_fields = setReadBufferSize_fields setWriteBufferSize_fields
  setHandshakeTimeout_fields setCompression_fields setSubprotocols_fields
  setBackendScheme_fields setMaxMessageSize_fields

lemma defaultConfig_fields:
  "ReadBufferSize defaultConfig = 1024"
  "WriteBufferSize defaultConfig = 1024"
  "HandshakeTimeout defaultConfig = 10000000000"
  "Compression defaultConfig = False"
  "Subprotocols defaultConfig = []"
  "BackendScheme defaultConfig = []"
  "MaxMessageSize defaultConfig = 1048576"
  by (simp_all add: defaultConfig_def Second_def)

lemma parseWebSocketConfig_chain:
  assumes "map_of extraConfig ''websocket'' = Some (AMap m)"
  shows "parseWebSocketConfig pd extraConfig =
      (setMaxMessageSize m (setBackendScheme m (setSubprotocols m (setCompression m
        (setHandshakeTimeout pd m (setWriteBufferSize m (setReadBufferSize m defaultConfig)))))),
       True)"
  using assms by (simp add: parseWebSocketConfig_def ConfigNamespace_def Let_def)

lemma parseWebSocketConfig_fields:
  assumes "map_of extraConfig ''websocket'' = Some (AMap m)"
  shows "ReadBufferSize (fst (parseWebSocketConfig pd extraConfig)) =
          (case map_of m ''read_buffer_size'' of Some (AFloat64 f) \<Rightarrow> int_of_float64 f
           | _ \<Rightarrow> 1024)"
    and "WriteBufferSize (fst (parseWebSocketConfig pd extraConfig)) =
          (case map_of m ''write_buffer_size'' of Some (AFloat64 f) \<Rightarrow> int_of_float64 f
           | _ \<Rightarrow> 1024)"
    and "HandshakeTimeout (fst (parseWebSocketConfig pd extraConfig)) =
          (case map_of m ''handshake_timeout'' of
             Some (AString s) \<Rightarrow> (case pd s of Some d \<Rightarrow> d | None \<Rightarrow> 10000000000)
           | _ \<Rightarrow> 10000000000)"
    and "Compression (fst (parseWebSocketConfig pd extraConfig)) =
          (case map_of m ''compression'' of Some (ABool b) \<Rightarrow> b | _ \<Rightarrow> False)"
    and "Subprotocols (fst (parseWebSocketConfig pd extraConfig)) =
          (case map_of m ''subprotocols'' of Some (ASlice l) \<Rightarrow> stringsOf l | _ \<Rightarrow> [])"
    and "BackendScheme (fst (parseWebSocketConfig pd extraConfig)) =
          (case map_of m ''backend_scheme'' of Some (AString s) \<Rightarrow> s | _ \<Rightarrow> [])"
    and "MaxMessageSize (fst (parseWebSocketConfig pd extraConfig)) =
          (case map_of m ''max_message_size'' of Some (AFloat64 f) \<Rightarrow> int_of_float64 f
           | _ \<Rightarrow> 1048576)"
  unfolding parseWebSocketConfig_chain [OF assms] fst_conv set_fields defaultConfig_fields
    append_Nil
  by simp_all

section \<open>Facts about header extraction\<close>




section \<open>Facts about address resolution\<close>

lemma deriveWebSocketURL_registry:
  "globalBackendRegistry = Some backends \<Longrightarrow> map_of backends backendName = Some registryURL \<Longrightarrow>
   deriveWebSocketURL globalBackendRegistry backendName backendPath forceScheme =
     Inr (registryURL @ backendPath)"
  by (simp add: deriveWebSocketURL_def)

lemma deriveWebSocketURL_fallback:
  "globalBackendRegistry = None
     \<or> (\<exists>backends. globalBackendRegistry = Some backends \<and> map_of backends backendName = None) \<Longrightarrow>
   deriveWebSocketURL globalBackendRegistry backendName backendPath forceScheme =
     Inr ((if forceScheme = [] then ''ws'' else forceScheme) @ ''://''
          @ (case map_of defaultMappings backendName of Some h \<Rightarrow> h | None \<Rightarrow> ''localhost:8080'')
          @ backendPath)"
  by (auto simp: deriveWebSocketURL_def Let_def)

lemma deriveWebSocketURL_cases:
  "(\<exists>backends registryURL. globalBackendRegistry = Some backends
      \<and> map_of backends backendName = Some registryURL)
   \<or> globalBackendRegistry = None
   \<or> (\<exists>backends. globalBackendRegistry = Some backends \<and> map_of backends backendName = None)"
  by (cases globalBackendRegistry) auto

lemma deriveWebSocketURL_suffix:
  "\<exists>wsURL. deriveWebSocketURL globalBackendRegistry backendName backendPath forceScheme = Inr wsURL
     \<and> suffix backendPath wsURL"
proof -
  consider (hit) backends registryURL where "globalBackendRegistry = Some backends"
      "map_of backends backendName = Some registryURL"
    | (miss) "globalBackendRegistry = None
        \<or> (\<exists>backends. globalBackendRegistry = Some backends \<and> map_of backends backendName = None)"
    using deriveWebSocketURL_cases [of globalBackendRegistry backendName] by blast
  then show ?thesis
  proof cases
    case hit
    then show ?thesis
      by (simp add: deriveWebSocketURL_registry suffix_def)
  next
    case miss
    have "suffix backendPath (a @ b @ c @ backendPath)" for a b c :: string
      unfolding suffix_def by (metis append.assoc)
    then show ?thesis
      unfolding deriveWebSocketURL_fallback [OF miss] by blast
  qed
qed

lemma connectToBackend_wsURL_named:
  assumes "map_of (ExtraConfig cfg) ''backend'' = Some (AString backendName)"
    and "map_of (ExtraConfig cfg) ''backend_path'' = Some (AString backendPath)"
    and "deriveWebSocketURL globalBackendRegistry backendName backendPath (BackendScheme wsConfig)
           = Inr wsURL"
  shows "connectToBackend_wsURL lib globalBackendRegistry cfg wsConfig =
     (if BackendScheme wsConfig \<noteq> [] then
        (case url_Parse lib wsURL of
           Inl err \<Rightarrow> Inl (ErrParseWebSocketURL err)
         | Inr parsedURL \<Rightarrow> Inr (url_String lib (parsedURL\<lparr>Scheme := BackendScheme wsConfig\<rparr>)))
      else Inr wsURL)"
  using assms by (simp add: connectToBackend_wsURL_def)

lemma hostList_branch:
  assumes "\<nexists>backendName. map_of (ExtraConfig cfg) ''backend'' = Some (AString backendName)"
  shows "connectToBackend_wsURL lib globalBackendRegistry cfg wsConfig =
     (case
        (case Backend cfg of
                [] \<Rightarrow> Inl ErrNoBackend
              | backend # _ \<Rightarrow>
                  (case Host backend of
                     [] \<Rightarrow> Inl ErrNoHost
                   | httpHost # _ \<Rightarrow>
                       convertHTTPToWebSocketURL (url_Parse lib) httpHost (URLPattern backend)
                         (BackendScheme wsConfig)))
      of
        Inl err \<Rightarrow> Inl err
      | Inr wsURL \<Rightarrow>
          (if BackendScheme wsConfig \<noteq> [] then
             (case url_Parse lib wsURL of
                Inl err \<Rightarrow> Inl (ErrParseWebSocketURL err)
              | Inr parsedURL \<Rightarrow>
                  Inr (url_String lib (parsedURL\<lparr>Scheme := BackendScheme wsConfig\<rparr>)))
           else Inr wsURL))"
proof (cases "map_of (ExtraConfig cfg) ''backend''")
  case None
  then show ?thesis
    by (simp add: connectToBackend_wsURL_def)
next
  case (Some v)
  with assms show ?thesis
    by (cases v) (simp_all add: connectToBackend_wsURL_def)
qed

lemma hostList_noBackend:
  assumes "\<nexists>backendName. map_of (ExtraConfig cfg) ''backend'' = Some (AString backendName)"
    and "Backend cfg = []"
  shows "connectToBackend_wsURL lib globalBackendRegistry cfg wsConfig = Inl ErrNoBackend"
  unfolding hostList_branch [OF assms(1)] using assms(2) by simp

lemma hostList_noHost:
  assumes "\<nexists>backendName. map_of (ExtraConfig cfg) ''backend'' = Some (AString backendName)"
    and "Backend cfg = b # bs" and "Host b = []"
  shows "connectToBackend_wsURL lib globalBackendRegistry cfg wsConfig = Inl ErrNoHost"
  unfolding hostList_branch [OF assms(1)] using assms(2,3) by simp

lemma hostList_unparsable:
  assumes "\<nexists>backendName. map_of (ExtraConfig cfg) ''backend'' = Some (AString backendName)"
    and "Backend cfg = b # bs" and "Host b = h # hs" and "url_Parse lib h = Inl e"
  shows "connectToBackend_wsURL lib globalBackendRegistry cfg wsConfig =
     Inl (ErrParseBackendHost h e)"
  unfolding hostList_branch [OF assms(1)] using assms(2-)
  by (simp add: convertHTTPToWebSocketURL_def)

lemma hostList_derived:
  assumes "\<nexists>backendName. map_of (ExtraConfig cfg) ''backend'' = Some (AString backendName)"
    and "Backend cfg = b # bs" and "Host b = h # hs" and "url_Parse lib h = Inr u"
    and "BackendScheme wsConfig = []"
  shows "connectToBackend_wsURL lib globalBackendRegistry cfg wsConfig =
     Inr ((if Scheme u = ''https'' then ''wss'' else ''ws'') @ ''://'' @ URLHost u @ URLPattern b)"
  unfolding hostList_branch [OF assms(1)] using assms(2-)
  by (simp add: convertHTTPToWebSocketURL_def)

lemma hostList_forced:
  assumes "\<nexists>backendName. map_of (ExtraConfig cfg) ''backend'' = Some (AString backendName)"
    and "Backend cfg = b # bs" and "Host b = h # hs" and "url_Parse lib h = Inr u"
    and "BackendScheme wsConfig \<noteq> []"
  shows "connectToBackend_wsURL lib globalBackendRegistry cfg wsConfig =
     (case url_Parse lib (BackendScheme wsConfig @ ''://'' @ URLHost u @ URLPattern b) of
        Inl err \<Rightarrow> Inl (ErrParseWebSocketURL err)
      | Inr parsedURL \<Rightarrow> Inr (url_String lib (parsedURL\<lparr>Scheme := BackendScheme wsConfig\<rparr>)))"
  unfolding hostList_branch [OF assms(1)] using assms(2-)
  by (simp add: convertHTTPToWebSocketURL_def)

section \<open>Facts about the session\<close>

lemma handleConnectionLifecycle_failed:
  "snd (connectToBackend lib globalBackendRegistry cfg wsConfig authHeaders) = Inl err \<Longrightarrow>
   handleConnectionLifecycle lib globalBackendRegistry cfg wsConfig authHeaders =
     fst (connectToBackend lib globalBackendRegistry cfg wsConfig authHeaders)
       @ [EvClose ClientConn StatusInternalError ''Backend connection failed'', EvCancel]"
  by (cases "connectToBackend lib globalBackendRegistry cfg wsConfig authHeaders")
    (simp add: handleConnectionLifecycle_def)

lemma connectToBackend_failed_events:
  "snd (connectToBackend lib globalBackendRegistry cfg wsConfig authHeaders) = Inl err \<Longrightarrow>
   fst (connectToBackend lib globalBackendRegistry cfg wsConfig authHeaders) = []
   \<or> (\<exists>wsURL headers.
        fst (connectToBackend lib globalBackendRegistry cfg wsConfig authHeaders)
          = [EvDial wsURL headers])"
  by (auto simp: connectToBackend_def Let_def split: sum.splits option.splits)

section \<open>Facts about the relay loop\<close>

lemma messagesRead_Suc:
  "messagesRead env (Suc n) =
     messagesRead env n @ (case readResult (env n) of
        ReadReturns messageType message \<Rightarrow> [(messageType, message)] | _ \<Rightarrow> [])"
  by (simp add: messagesRead_def)

lemma proxyMessages_step:
  "forwards (env i) \<Longrightarrow>
   proxyMessages env i writes =
     proxyMessages env (Suc i) (writes @ (case readResult (env i) of
        ReadReturns messageType message \<Rightarrow> [(messageType, message)] | _ \<Rightarrow> []))"
  by (subst proxyMessages.simps) (auto simp: forwards_def split: readOutcome.splits)

lemma proxyMessages_passes:
  "\<forall>k<n. forwards (env k) \<Longrightarrow>
   proxyMessages env 0 [] = proxyMessages env n (messagesRead env n)"
proof (induction n)
  case 0
  show ?case by (simp add: messagesRead_def)
next
  case (Suc n)
  then have "proxyMessages env 0 [] = proxyMessages env n (messagesRead env n)"
    and "forwards (env n)"
    by simp_all
  then show ?case
    by (simp add: proxyMessages_step messagesRead_Suc)
qed

lemma messagesRead_length:
  "\<forall>k<n. forwards (env k) \<Longrightarrow> length (messagesRead env n) = n"
  by (induction n) (auto simp: messagesRead_Suc messagesRead_def forwards_def split: readOutcome.splits)

lemma messagesRead_nth:
  "\<forall>k<n. forwards (env k) \<Longrightarrow> k < n \<Longrightarrow>
   readResult (env k) = ReadReturns (fst (messagesRead env n ! k)) (snd (messagesRead env n ! k))"
proof (induction n)
  case 0
  then show ?case by simp
next
  case (Suc n)
  then have l: "length (messagesRead env n) = n"
    by (simp add: messagesRead_length)
  show ?case
  proof (cases "k < n")
    case True
    with Suc l show ?thesis
      by (simp add: messagesRead_Suc nth_append)
  next
    case False
    with Suc.prems have "k = n" and "forwards (env n)"
      by simp_all
    with l show ?thesis
      by (auto simp: messagesRead_Suc nth_append forwards_def split: readOutcome.splits)
  qed
qed

lemma proxyMessages_never:
  assumes "proxyMessages env0 i0 writes0 = Some y0"
  shows "\<exists>n. \<not> forwards (env0 n)"
proof (rule proxyMessages.raw_induct
    [where P = "\<lambda>env i writes y. \<exists>n. \<not> forwards (env n)", OF _ assms], goal_cases)
  case (1 pm env i writes y)
  show ?case
  proof (cases "forwards (env i)")
    case True
    then obtain t m where e: "ctxErr (env i) = None" "readResult (env i) = ReadReturns t m"
      "writeResult (env i) = WriteReturns"
      by (auto simp: forwards_def split: readOutcome.splits)
    with 1(2) have "pm env (Suc i) (writes @ [(t, m)]) = Some y"
      by simp
    then show ?thesis
      by (rule 1(1))
  next
    case False
    then show ?thesis by blast
  qed
qed
lemma proxyMessages_forever:
  "\<forall>n. forwards (env n) \<Longrightarrow> proxyMessages env 0 [] = None"
  using proxyMessages_never [of env 0 "[]"] by (cases "proxyMessages env 0 []") auto

section \<open>Claims\<close>

text \<open>
  C1 (as amended). \<open>isWebSocketUpgrade\<close> returns true exactly when the \<open>Upgrade\<close>
  header equals \<open>websocket\<close> up to case, the \<open>Connection\<close> header, in lower case, has
  \<open>upgrade\<close> somewhere inside it (as a run of bytes, not necessarily a whole
  comma-separated entry), and the \<open>Sec-WebSocket-Key\<close> header is not empty, each
  header being read as \<open>Header.Get\<close> reads it: the first value stored under its
  canonical name, and no other value.
\<close>

theorem isWebSocketUpgrade_iff:
  "isWebSocketUpgrade lib r =
     ((\<exists>u us. map_of (Header r) ''Upgrade'' = Some (u # us)
          \<and> ToLower (unicode_ToLower lib) u = ''websocket'')
      \<and> (\<exists>c cs pre post. map_of (Header r) ''Connection'' = Some (c # cs)
            \<and> ToLower (unicode_ToLower lib) c = pre @ ''upgrade'' @ post)
      \<and> (\<exists>k ks. map_of (Header r) ''Sec-Websocket-Key'' = Some (k # ks) \<and> k \<noteq> []))"
proof -
  have up: "(ToLower (unicode_ToLower lib) (Get (Header r) ''Upgrade'') = ''websocket'') =
      (\<exists>u us. map_of (Header r) ''Upgrade'' = Some (u # us)
         \<and> ToLower (unicode_ToLower lib) u = ''websocket'')"
    by (auto simp: Get_first canonical_Upgrade ToLower_Nil split: option.splits list.splits)
  have "\<not> sublist ''upgrade'' []"
    by simp
  then have co: "Contains (ToLower (unicode_ToLower lib) (Get (Header r) ''Connection'')) ''upgrade'' =
      (\<exists>c cs pre post. map_of (Header r) ''Connection'' = Some (c # cs)
         \<and> ToLower (unicode_ToLower lib) c = pre @ ''upgrade'' @ post)"
    unfolding Contains_sublist
    by (auto simp: Get_first canonical_Connection ToLower_Nil sublist_def
        split: option.splits list.splits)
  have ke: "(Get (Header r) ''Sec-WebSocket-Key'' \<noteq> []) =
      (\<exists>k ks. map_of (Header r) ''Sec-Websocket-Key'' = Some (k # ks) \<and> k \<noteq> [])"
    by (auto simp: Get_first canonical_Key split: option.splits list.splits)
  show ?thesis
    unfolding isWebSocketUpgrade_def Let_def up co ke ..
qed

theorem isWebSocketUpgrade_iff_witness:
  "isWebSocketUpgrade (sampleLibrary True True)
     \<lparr>Header = [(''Upgrade'', [''WebSocket'']), (''Connection'', [''keep-alive, Upgrade'']),
                (''Sec-Websocket-Key'', [''dGhlIHNhbXBsZSBub25jZQ==''])]\<rparr>"
proof -
  have l: "ToLower (unicode_ToLower (sampleLibrary True True)) ''WebSocket'' = ''websocket''"
    by code_simp
  have c: "ToLower (unicode_ToLower (sampleLibrary True True)) ''keep-alive, Upgrade''
      = ''keep-alive, '' @ ''upgrade'' @ []"
    by code_simp
  have "\<exists>pre post. ToLower (unicode_ToLower (sampleLibrary True True)) ''keep-alive, Upgrade''
      = pre @ ''upgrade'' @ post"
    using c by blast
  then show ?thesis
    unfolding isWebSocketUpgrade_iff
    using l by simp
qed

text \<open>
  C1 (as stated) fails in both directions. A \<open>Connection\<close> value whose only entry is
  \<open>noupgrade\<close> has no entry \<open>upgrade\<close>, and the request is classified as an upgrade.
  A \<open>Connection\<close> header with the two values \<open>keep-alive\<close> and \<open>Upgrade\<close> has the entry
  \<open>upgrade\<close>, and the request is not classified as an upgrade, since only the first
  value is read.
\<close>

theorem isWebSocketUpgrade_counterexample:
  "isWebSocketUpgrade (sampleLibrary True True)
     \<lparr>Header = [(''Upgrade'', [''websocket'']), (''Connection'', [''noupgrade'']),
                (''Sec-Websocket-Key'', [''dGhlIHNhbXBsZSBub25jZQ==''])]\<rparr>
   \<and> \<not> spec_IsUpgrade (sampleLibrary True True)
     \<lparr>Header = [(''Upgrade'', [''websocket'']), (''Connection'', [''noupgrade'']),
                (''Sec-Websocket-Key'', [''dGhlIHNhbXBsZSBub25jZQ==''])]\<rparr>
   \<and> \<not> isWebSocketUpgrade (sampleLibrary True True)
     \<lparr>Header = [(''Upgrade'', [''websocket'']), (''Connection'', [''keep-alive'', ''Upgrade'']),
                (''Sec-Websocket-Key'', [''dGhlIHNhbXBsZSBub25jZQ==''])]\<rparr>
   \<and> spec_IsUpgrade (sampleLibrary True True)
     \<lparr>Header = [(''Upgrade'', [''websocket'']), (''Connection'', [''keep-alive'', ''Upgrade'']),
                (''Sec-Websocket-Key'', [''dGhlIHNhbXBsZSBub25jZQ==''])]\<rparr>"
  by code_simp

text \<open>
  C2. In a run of \<open>proxyMessages\<close> whose first \<open>n\<close> passes each read a message and
  write it without error, the loop reaches pass \<open>n\<close> having called \<open>dest.Write\<close> with
  exactly the messages \<open>src.Read\<close> returned, type and payload unchanged, in the
  order they were read. If the context is cancelled at pass \<open>n\<close> the loop returns
  \<open>ctx.Err()\<close>; if \<open>Read\<close> fails there it returns that error; if \<open>Write\<close> fails there
  it returns that error, after the call with the message just read. It does not
  return when a call blocks for ever, nor when every pass forwards a message.
\<close>

theorem proxyMessages_relays:
  assumes "\<forall>k<n. forwards (env k)"
  shows "proxyMessages env 0 [] = proxyMessages env n (messagesRead env n)
    \<and> length (messagesRead env n) = n
    \<and> (\<forall>k<n. readResult (env k) =
          ReadReturns (fst (messagesRead env n ! k)) (snd (messagesRead env n ! k)))
    \<and> (ctxErr (env n) = Some err \<longrightarrow>
          proxyMessages env 0 [] = Some (err, messagesRead env n))
    \<and> (ctxErr (env n) = None \<and> readResult (env n) = ReadFails err \<longrightarrow>
          proxyMessages env 0 [] = Some (err, messagesRead env n))
    \<and> (ctxErr (env n) = None \<and> readResult (env n) = ReadReturns messageType message
         \<and> writeResult (env n) = WriteFails err \<longrightarrow>
          proxyMessages env 0 [] = Some (err, messagesRead env n @ [(messageType, message)]))
    \<and> (ctxErr (env n) = None
         \<and> (readResult (env n) = ReadBlocks
              \<or> (readResult (env n) = ReadReturns messageType message
                  \<and> writeResult (env n) = WriteBlocks)) \<longrightarrow>
          proxyMessages env 0 [] = None)
    \<and> ((\<forall>k. forwards (env k)) \<longrightarrow> proxyMessages env 0 [] = None)"
proof (intro conjI impI)
  show p: "proxyMessages env 0 [] = proxyMessages env n (messagesRead env n)"
    using assms by (rule proxyMessages_passes)
  show "length (messagesRead env n) = n"
    using assms by (rule messagesRead_length)
  show "\<forall>k<n. readResult (env k) =
          ReadReturns (fst (messagesRead env n ! k)) (snd (messagesRead env n ! k))"
    using assms by (simp add: messagesRead_nth)
  show "proxyMessages env 0 [] = Some (err, messagesRead env n)"
    if "ctxErr (env n) = Some err"
    unfolding p using that by (subst proxyMessages.simps) simp
  show "proxyMessages env 0 [] = Some (err, messagesRead env n)"
    if "ctxErr (env n) = None \<and> readResult (env n) = ReadFails err"
    unfolding p using that by (subst proxyMessages.simps) simp
  show "proxyMessages env 0 [] = Some (err, messagesRead env n @ [(messageType, message)])"
    if "ctxErr (env n) = None \<and> readResult (env n) = ReadReturns messageType message
         \<and> writeResult (env n) = WriteFails err"
    unfolding p using that by (subst proxyMessages.simps) simp
  show "proxyMessages env 0 [] = None"
    if "ctxErr (env n) = None
         \<and> (readResult (env n) = ReadBlocks
              \<or> (readResult (env n) = ReadReturns messageType message
                  \<and> writeResult (env n) = WriteBlocks))"
    unfolding p using that by (subst proxyMessages.simps) auto
  show "proxyMessages env 0 [] = None" if "\<forall>k. forwards (env k)"
    using that by (rule proxyMessages_forever)
qed

theorem proxyMessages_relays_witness:
  "proxyMessages sampleRun 0 [] =
     Some (Canceled, [(MessageText, ''hello''), (MessageBinary, ''bytes'')])"
proof -
  have f: "\<forall>k<2. forwards (sampleRun k)"
    by (simp add: sampleRun_def forwards_def)
  have c: "ctxErr (sampleRun 2) = Some Canceled"
    by (simp add: sampleRun_def)
  have m: "messagesRead sampleRun 2 = [(MessageText, ''hello''), (MessageBinary, ''bytes'')]"
    by (simp add: messagesRead_def sampleRun_def numeral_2_eq_2)
  from proxyMessages_relays [OF f, of Canceled]
  have "ctxErr (sampleRun 2) = Some Canceled \<longrightarrow>
      proxyMessages sampleRun 0 [] = Some (Canceled, messagesRead sampleRun 2)"
    by blast
  with c m show ?thesis
    by simp
qed

text \<open>
  C3 (as amended). \<open>deriveWebSocketURL\<close> never returns an error, and its result ends
  with the configured path. A name found in the registry gives the registry's
  address followed by the path: the scheme is the registry entry's own, whatever
  the forced scheme. A name the registry does not hold (or no registry at all)
  gives \<open>scheme://host\<close> followed by the path, where the host comes from the static
  table when the name is in it and is \<open>localhost:8080\<close> otherwise, and the scheme is
  \<open>ws\<close> unless a forced scheme is supplied. With no forced scheme,
  \<open>connectToBackend\<close> uses this address as it is for an endpoint that carries
  \<open>backend\<close> and \<open>backend_path\<close>.
\<close>

theorem deriveWebSocketURL_never_fails:
  "(\<exists>wsURL. deriveWebSocketURL globalBackendRegistry backendName backendPath forceScheme = Inr wsURL
       \<and> suffix backendPath wsURL)
   \<and> (globalBackendRegistry = Some backends \<and> map_of backends backendName = Some registryURL \<longrightarrow>
        deriveWebSocketURL globalBackendRegistry backendName backendPath forceScheme =
          Inr (registryURL @ backendPath))
   \<and> ((globalBackendRegistry = None
         \<or> (globalBackendRegistry = Some backends \<and> map_of backends backendName = None))
        \<and> map_of defaultMappings backendName = Some host \<longrightarrow>
        deriveWebSocketURL globalBackendRegistry backendName backendPath forceScheme =
          Inr ((if forceScheme = [] then ''ws'' else forceScheme) @ ''://'' @ host @ backendPath))
   \<and> ((globalBackendRegistry = None
         \<or> (globalBackendRegistry = Some backends \<and> map_of backends backendName = None))
        \<and> map_of defaultMappings backendName = None \<longrightarrow>
        deriveWebSocketURL globalBackendRegistry backendName backendPath forceScheme =
          Inr ((if forceScheme = [] then ''ws'' else forceScheme) @ ''://localhost:8080''
               @ backendPath))
   \<and> (map_of (ExtraConfig cfg) ''backend'' = Some (AString backendName)
        \<and> map_of (ExtraConfig cfg) ''backend_path'' = Some (AString backendPath)
        \<and> BackendScheme wsConfig = [] \<longrightarrow>
        connectToBackend_wsURL lib globalBackendRegistry cfg wsConfig =
          deriveWebSocketURL globalBackendRegistry backendName backendPath [])"
proof (intro conjI impI)
  show "\<exists>wsURL. deriveWebSocketURL globalBackendRegistry backendName backendPath forceScheme
      = Inr wsURL \<and> suffix backendPath wsURL"
    by (rule deriveWebSocketURL_suffix)
next
  assume "globalBackendRegistry = Some backends \<and> map_of backends backendName = Some registryURL"
  then show "deriveWebSocketURL globalBackendRegistry backendName backendPath forceScheme =
          Inr (registryURL @ backendPath)"
    by (simp add: deriveWebSocketURL_registry)
next
  assume a: "(globalBackendRegistry = None
         \<or> (globalBackendRegistry = Some backends \<and> map_of backends backendName = None))
        \<and> map_of defaultMappings backendName = Some host"
  then have "globalBackendRegistry = None
     \<or> (\<exists>backends. globalBackendRegistry = Some backends \<and> map_of backends backendName = None)"
    by blast
  from deriveWebSocketURL_fallback [OF this] a
  show "deriveWebSocketURL globalBackendRegistry backendName backendPath forceScheme =
          Inr ((if forceScheme = [] then ''ws'' else forceScheme) @ ''://'' @ host @ backendPath)"
    by simp
next
  assume a: "(globalBackendRegistry = None
         \<or> (globalBackendRegistry = Some backends \<and> map_of backends backendName = None))
        \<and> map_of defaultMappings backendName = None"
  then have "globalBackendRegistry = None
     \<or> (\<exists>backends. globalBackendRegistry = Some backends \<and> map_of backends backendName = None)"
    by blast
  from deriveWebSocketURL_fallback [OF this] a
  show "deriveWebSocketURL globalBackendRegistry backendName backendPath forceScheme =
          Inr ((if forceScheme = [] then ''ws'' else forceScheme) @ ''://localhost:8080''
               @ backendPath)"
    by simp
next
  assume a: "map_of (ExtraConfig cfg) ''backend'' = Some (AString backendName)
        \<and> map_of (ExtraConfig cfg) ''backend_path'' = Some (AString backendPath)
        \<and> BackendScheme wsConfig = []"
  obtain wsURL where w: "deriveWebSocketURL globalBackendRegistry backendName backendPath [] = Inr wsURL"
    using deriveWebSocketURL_suffix by blast
  with a have "deriveWebSocketURL globalBackendRegistry backendName backendPath
      (BackendScheme wsConfig) = Inr wsURL"
    by simp
  from connectToBackend_wsURL_named [OF _ _ this, of cfg lib] a w
  show "connectToBackend_wsURL lib globalBackendRegistry cfg wsConfig =
          deriveWebSocketURL globalBackendRegistry backendName backendPath []"
    by simp
qed

theorem deriveWebSocketURL_never_fails_witness:
  "deriveWebSocketURL (Some [(''chat'', ''ws://chat.internal:9000'')]) ''chat'' ''/api/v1/test/'' []
     = Inr ''ws://chat.internal:9000/api/v1/test/''
   \<and> deriveWebSocketURL None ''albus'' ''/api/v1/test/'' [] = Inr ''ws://localhost:3000/api/v1/test/''
   \<and> deriveWebSocketURL (Some []) ''unknown'' ''/api/v1/test/'' ''wss''
     = Inr ''wss://localhost:8080/api/v1/test/''
   \<and> connectToBackend_wsURL (sampleLibrary True True) None
       (sampleEndpoint\<lparr>ExtraConfig := [(''websocket'', AMap []), (''backend'', AString ''albus''),
          (''backend_path'', AString ''/api/v1/test/'')]\<rparr>) defaultConfig
     = Inr ''ws://localhost:3000/api/v1/test/''"
proof -
  have a: "map_of defaultMappings ''albus'' = Some ''localhost:3000''"
    and u: "map_of defaultMappings ''unknown'' = None"
    by (simp_all add: defaultMappings_def)
  have s: "BackendScheme defaultConfig = []"
    by (simp add: defaultConfig_def)
  show ?thesis
    using
      deriveWebSocketURL_never_fails [of "Some [(''chat'', ''ws://chat.internal:9000'')]" "''chat''" "''/api/v1/test/''" "[]"
        "[(''chat'', ''ws://chat.internal:9000'')]" "''ws://chat.internal:9000''"]
      deriveWebSocketURL_never_fails [of None "''albus''" "''/api/v1/test/''" "[]" _ _ "''localhost:3000''"
        "sampleEndpoint\<lparr>ExtraConfig := [(''websocket'', AMap []), (''backend'', AString ''albus''),
          (''backend_path'', AString ''/api/v1/test/'')]\<rparr>" defaultConfig
        "sampleLibrary True True"]
      deriveWebSocketURL_never_fails [of "Some []" "''unknown''" "''/api/v1/test/''" "''wss''" "[]"]
      a u s
    by simp
qed

text \<open>
  C3 (as stated) fails on a registry hit: with the registry entry
  \<open>wss://chat.internal:9000\<close> the derived address has the scheme \<open>wss\<close>, with no forced
  scheme (where the claim has \<open>ws\<close>) and with the forced scheme \<open>ws\<close> alike; with no
  forced scheme it is also the address \<open>connectToBackend\<close> dials.
\<close>

theorem deriveWebSocketURL_counterexample:
  "deriveWebSocketURL (Some [(''chat'', ''wss://chat.internal:9000'')]) ''chat'' ''/v1/chat'' []
     = Inr ''wss://chat.internal:9000/v1/chat''
   \<and> \<not> spec_hasScheme [] ''wss://chat.internal:9000/v1/chat''
   \<and> deriveWebSocketURL (Some [(''chat'', ''wss://chat.internal:9000'')]) ''chat'' ''/v1/chat'' ''ws''
     = Inr ''wss://chat.internal:9000/v1/chat''
   \<and> \<not> spec_hasScheme ''ws'' ''wss://chat.internal:9000/v1/chat''
   \<and> connectToBackend_wsURL (sampleLibrary True True)
       (Some [(''chat'', ''wss://chat.internal:9000'')])
       \<lparr>Endpoint = ''/ws/chat'', Backend = [],
        ExtraConfig = [(''websocket'', AMap []), (''backend'', AString ''chat''),
          (''backend_path'', AString ''/v1/chat'')]\<rparr> defaultConfig
     = Inr ''wss://chat.internal:9000/v1/chat''"
  by code_simp

text \<open>
  C4. For an endpoint without a \<open>backend\<close> name, \<open>connectToBackend\<close> resolves the
  address from the host list: no backend or no host is an error, and so is a first
  host that \<open>url.Parse\<close> rejects; otherwise the address is made of the first host's
  \<open>Host\<close> part and the URL pattern, with scheme \<open>wss\<close> when the host's scheme is
  \<open>https\<close> and \<open>ws\<close> for any other. For either shape, a non-empty \<open>BackendScheme\<close>
  replaces the scheme of the parsed address that the final URL is printed from (and
  an address that does not parse is an error).
\<close>

theorem connectToBackend_wsURL_host_list:
  "((\<nexists>backendName. map_of (ExtraConfig cfg) ''backend'' = Some (AString backendName)) \<longrightarrow>
      (Backend cfg = [] \<longrightarrow>
         connectToBackend_wsURL lib globalBackendRegistry cfg wsConfig = Inl ErrNoBackend)
      \<and> (Backend cfg = b # bs \<and> Host b = [] \<longrightarrow>
         connectToBackend_wsURL lib globalBackendRegistry cfg wsConfig = Inl ErrNoHost)
      \<and> (Backend cfg = b # bs \<and> Host b = h # hs \<and> url_Parse lib h = Inl e \<longrightarrow>
         connectToBackend_wsURL lib globalBackendRegistry cfg wsConfig =
           Inl (ErrParseBackendHost h e))
      \<and> (Backend cfg = b # bs \<and> Host b = h # hs \<and> url_Parse lib h = Inr u
          \<and> BackendScheme wsConfig = [] \<longrightarrow>
         connectToBackend_wsURL lib globalBackendRegistry cfg wsConfig =
           Inr ((if Scheme u = ''https'' then ''wss'' else ''ws'') @ ''://'' @ URLHost u
                @ URLPattern b))
      \<and> (Backend cfg = b # bs \<and> Host b = h # hs \<and> url_Parse lib h = Inr u
          \<and> BackendScheme wsConfig \<noteq> [] \<longrightarrow>
         connectToBackend_wsURL lib globalBackendRegistry cfg wsConfig =
           (case url_Parse lib (BackendScheme wsConfig @ ''://'' @ URLHost u @ URLPattern b) of
              Inl err \<Rightarrow> Inl (ErrParseWebSocketURL err)
            | Inr parsedURL \<Rightarrow>
                Inr (url_String lib (parsedURL\<lparr>Scheme := BackendScheme wsConfig\<rparr>)))))
   \<and> (map_of (ExtraConfig cfg) ''backend'' = Some (AString backendName)
       \<and> map_of (ExtraConfig cfg) ''backend_path'' = Some (AString backendPath)
       \<and> deriveWebSocketURL globalBackendRegistry backendName backendPath (BackendScheme wsConfig)
           = Inr wsURL
       \<and> BackendScheme wsConfig \<noteq> [] \<longrightarrow>
         connectToBackend_wsURL lib globalBackendRegistry cfg wsConfig =
           (case url_Parse lib wsURL of
              Inl err \<Rightarrow> Inl (ErrParseWebSocketURL err)
            | Inr parsedURL \<Rightarrow>
                Inr (url_String lib (parsedURL\<lparr>Scheme := BackendScheme wsConfig\<rparr>))))"
proof (intro conjI impI)
  assume "map_of (ExtraConfig cfg) ''backend'' = Some (AString backendName)
       \<and> map_of (ExtraConfig cfg) ''backend_path'' = Some (AString backendPath)
       \<and> deriveWebSocketURL globalBackendRegistry backendName backendPath (BackendScheme wsConfig)
           = Inr wsURL
       \<and> BackendScheme wsConfig \<noteq> []"
  then show "connectToBackend_wsURL lib globalBackendRegistry cfg wsConfig =
           (case url_Parse lib wsURL of
              Inl err \<Rightarrow> Inl (ErrParseWebSocketURL err)
            | Inr parsedURL \<Rightarrow>
                Inr (url_String lib (parsedURL\<lparr>Scheme := BackendScheme wsConfig\<rparr>)))"
    using connectToBackend_wsURL_named [of cfg backendName backendPath globalBackendRegistry
        wsConfig wsURL lib]
    by simp
qed (simp_all add: hostList_noBackend hostList_noHost hostList_unparsable hostList_derived
    hostList_forced)

theorem connectToBackend_wsURL_host_list_witness:
  "connectToBackend_wsURL (sampleLibrary True True) None sampleEndpoint defaultConfig
     = Inr ''wss://chat.internal:8443/v1/chat''
   \<and> connectToBackend_wsURL (sampleLibrary True True) None sampleEndpoint
       (defaultConfig\<lparr>BackendScheme := ''ws''\<rparr>)
     = Inr ''ws://chat.internal:8443/v1/chat''
   \<and> connectToBackend_wsURL (sampleLibrary True True) None (sampleEndpoint\<lparr>Backend := []\<rparr>)
       defaultConfig
     = Inl ErrNoBackend"
proof -
  have n: "\<nexists>backendName. map_of (ExtraConfig sampleEndpoint) ''backend'' = Some (AString backendName)"
    "\<nexists>backendName. map_of (ExtraConfig (sampleEndpoint\<lparr>Backend := []\<rparr>)) ''backend''
       = Some (AString backendName)"
    by (simp_all add: sampleEndpoint_def)
  have b: "Backend sampleEndpoint =
      \<lparr>Host = [''https://chat.internal:8443'', ''https://chat2.internal:8443''],
        URLPattern = ''/v1/chat''\<rparr> # []"
    by (simp add: sampleEndpoint_def)
  have p: "url_Parse (sampleLibrary True True) ''https://chat.internal:8443'' =
      Inr \<lparr>Scheme = ''https'', URLHost = ''chat.internal:8443'', Path = [], RawQuery = []\<rparr>"
    by code_simp
  have q: "url_Parse (sampleLibrary True True) ''ws://chat.internal:8443/v1/chat'' =
      Inr \<lparr>Scheme = ''ws'', URLHost = ''chat.internal:8443'', Path = ''/v1/chat'', RawQuery = []\<rparr>"
    by code_simp
  have s: "url_String (sampleLibrary True True)
      \<lparr>Scheme = ''ws'', URLHost = ''chat.internal:8443'', Path = ''/v1/chat'', RawQuery = []\<rparr>
      = ''ws://chat.internal:8443/v1/chat''"
    by code_simp
  have d: "BackendScheme defaultConfig = []"
    by (simp add: defaultConfig_def)
  show ?thesis
    using
      connectToBackend_wsURL_host_list [of sampleEndpoint "sampleLibrary True True" None defaultConfig
        "\<lparr>Host = [''https://chat.internal:8443'', ''https://chat2.internal:8443''],
          URLPattern = ''/v1/chat''\<rparr>" "[]" "''https://chat.internal:8443''"
        "[''https://chat2.internal:8443'']" _
        "\<lparr>Scheme = ''https'', URLHost = ''chat.internal:8443'', Path = [], RawQuery = []\<rparr>"]
      connectToBackend_wsURL_host_list [of sampleEndpoint "sampleLibrary True True" None "defaultConfig\<lparr>BackendScheme := ''ws''\<rparr>"
        "\<lparr>Host = [''https://chat.internal:8443'', ''https://chat2.internal:8443''],
          URLPattern = ''/v1/chat''\<rparr>" "[]" "''https://chat.internal:8443''"
        "[''https://chat2.internal:8443'']" _
        "\<lparr>Scheme = ''https'', URLHost = ''chat.internal:8443'', Path = [], RawQuery = []\<rparr>"]
      connectToBackend_wsURL_host_list [of "sampleEndpoint\<lparr>Backend := []\<rparr>" "sampleLibrary True True" None defaultConfig]
      n b p q s d
    by simp
qed

text \<open>
  C5. For an endpoint whose extra configuration has no \<open>websocket\<close> key, or
  something other than a map under it, the wrapped factory returns the very
  handler of the host's factory. For an endpoint with a \<open>websocket\<close> map, a request
  that is not an upgrade is handled by the host's handler.
\<close>

theorem HandlerWrapper_transparent:
  "((\<nexists>wsConfigMap. map_of (ExtraConfig cfg) ''websocket'' = Some (AMap wsConfigMap)) \<longrightarrow>
      HandlerWrapper lib globalBackendRegistry standardHandlerFactory cfg p =
        standardHandlerFactory cfg p)
   \<and> (map_of (ExtraConfig cfg) ''websocket'' = Some (AMap wsConfigMap)
       \<and> \<not> isWebSocketUpgrade lib (Request c) \<longrightarrow>
      HandlerWrapper lib globalBackendRegistry standardHandlerFactory cfg p c =
        standardHandlerFactory cfg p c)"
proof (intro conjI impI)
  assume n: "\<nexists>wsConfigMap. map_of (ExtraConfig cfg) ''websocket'' = Some (AMap wsConfigMap)"
  have "snd (parseWebSocketConfig (time_ParseDuration lib) (ExtraConfig cfg)) = False"
  proof (cases "map_of (ExtraConfig cfg) ''websocket''")
    case None
    then show ?thesis
      by (simp add: parseWebSocketConfig_def ConfigNamespace_def)
  next
    case (Some v)
    with n show ?thesis
      by (cases v) (simp_all add: parseWebSocketConfig_def ConfigNamespace_def)
  qed
  then show "HandlerWrapper lib globalBackendRegistry standardHandlerFactory cfg p =
        standardHandlerFactory cfg p"
    by (cases "parseWebSocketConfig (time_ParseDuration lib) (ExtraConfig cfg)")
      (simp add: HandlerWrapper_def)
next
  assume a: "map_of (ExtraConfig cfg) ''websocket'' = Some (AMap wsConfigMap)
       \<and> \<not> isWebSocketUpgrade lib (Request c)"
  then have "snd (parseWebSocketConfig (time_ParseDuration lib) (ExtraConfig cfg)) = True"
    by (simp add: parseWebSocketConfig_chain)
  with a show "HandlerWrapper lib globalBackendRegistry standardHandlerFactory cfg p c =
        standardHandlerFactory cfg p c"
    by (cases "parseWebSocketConfig (time_ParseDuration lib) (ExtraConfig cfg)")
      (simp add: HandlerWrapper_def)
qed

theorem HandlerWrapper_transparent_witness:
  "HandlerWrapper (sampleLibrary True True) None sampleStandard
       (sampleEndpoint\<lparr>ExtraConfig := [(''websocket'', AString ''on'')]\<rparr>) ()
     = sampleStandard (sampleEndpoint\<lparr>ExtraConfig := [(''websocket'', AString ''on'')]\<rparr>) ()
   \<and> HandlerWrapper (sampleLibrary True True) None sampleStandard sampleEndpoint ()
       \<lparr>Request = \<lparr>Header = [(''Accept'', [''text/html''])]\<rparr>\<rparr>
     = [EvJSON 200 ''/ws/chat'']"
proof -
  have n: "\<not> isWebSocketUpgrade (sampleLibrary True True) (Request \<lparr>Request = \<lparr>Header = [(''Accept'', [''text/html''])]\<rparr>\<rparr>)"
    by code_simp
  have m: "map_of (ExtraConfig sampleEndpoint) ''websocket'' = Some (AMap [(''compression'', ABool True)])"
    by (simp add: sampleEndpoint_def)
  have s: "sampleStandard sampleEndpoint () \<lparr>Request = \<lparr>Header = [(''Accept'', [''text/html''])]\<rparr>\<rparr>
      = [EvJSON 200 ''/ws/chat'']"
    by (simp add: sampleStandard_def sampleEndpoint_def)
  show ?thesis
    using
      HandlerWrapper_transparent [where lib = "sampleLibrary True True"
        and globalBackendRegistry = None and standardHandlerFactory = sampleStandard
        and p = "()"
        and cfg = "sampleEndpoint\<lparr>ExtraConfig := [(''websocket'', AString ''on'')]\<rparr>"]
      HandlerWrapper_transparent [where lib = "sampleLibrary True True"
        and globalBackendRegistry = None and standardHandlerFactory = sampleStandard
        and p = "()" and cfg = sampleEndpoint
        and wsConfigMap = "[(''compression'', ABool True)]"
        and c = "\<lparr>Request = \<lparr>Header = [(''Accept'', [''text/html''])]\<rparr>\<rparr>"]
      n m s
    by simp
qed

text \<open>
  C6. On a configuration with no \<open>websocket\<close> key (the empty one included),
  \<open>parseWebSocketConfig\<close> returns the zero configuration and \<open>false\<close>. On a
  configuration whose \<open>websocket\<close> entry is \<open>{compression: true}\<close> alone it returns
  \<open>true\<close> and compression enabled, with every other field at its default: buffers
  of 1024, a handshake timeout of 10 s (in nanoseconds), no subprotocol, no forced
  scheme, and a maximum message size of 1 MiB.
\<close>

theorem parseWebSocketConfig_absent_and_compression:
  "(map_of extraConfig ''websocket'' = None \<longrightarrow>
      parseWebSocketConfig pd extraConfig =
        (\<lparr>ReadBufferSize = 0, WriteBufferSize = 0, HandshakeTimeout = 0, Compression = False,
          Subprotocols = [], BackendScheme = [], MaxMessageSize = 0\<rparr>, False))
   \<and> (map_of extraConfig ''websocket'' = Some (AMap [(''compression'', ABool True)]) \<longrightarrow>
      parseWebSocketConfig pd extraConfig =
        (\<lparr>ReadBufferSize = 1024, WriteBufferSize = 1024, HandshakeTimeout = 10000000000,
          Compression = True, Subprotocols = [], BackendScheme = [],
          MaxMessageSize = 1048576\<rparr>, True))"
proof (intro conjI impI)
  assume "map_of extraConfig ''websocket'' = None"
  then show "parseWebSocketConfig pd extraConfig =
        (\<lparr>ReadBufferSize = 0, WriteBufferSize = 0, HandshakeTimeout = 0, Compression = False,
          Subprotocols = [], BackendScheme = [], MaxMessageSize = 0\<rparr>, False)"
    by (simp add: parseWebSocketConfig_def ConfigNamespace_def zeroConfig_def)
next
  assume a: "map_of extraConfig ''websocket'' = Some (AMap [(''compression'', ABool True)])"
  have "fst (parseWebSocketConfig pd extraConfig) =
      \<lparr>ReadBufferSize = 1024, WriteBufferSize = 1024, HandshakeTimeout = 10000000000,
          Compression = True, Subprotocols = [], BackendScheme = [],
          MaxMessageSize = 1048576\<rparr>"
    by (rule config.equality) (simp_all add: parseWebSocketConfig_fields [OF a])
  moreover have "snd (parseWebSocketConfig pd extraConfig) = True"
    by (simp add: parseWebSocketConfig_chain [OF a])
  ultimately show "parseWebSocketConfig pd extraConfig =
        (\<lparr>ReadBufferSize = 1024, WriteBufferSize = 1024, HandshakeTimeout = 10000000000,
          Compression = True, Subprotocols = [], BackendScheme = [],
          MaxMessageSize = 1048576\<rparr>, True)"
    by (simp add: prod_eq_iff)
qed

theorem parseWebSocketConfig_absent_and_compression_witness:
  "parseWebSocketConfig (\<lambda>s. None) [] =
        (\<lparr>ReadBufferSize = 0, WriteBufferSize = 0, HandshakeTimeout = 0, Compression = False,
          Subprotocols = [], BackendScheme = [], MaxMessageSize = 0\<rparr>, False)
   \<and> parseWebSocketConfig (\<lambda>s. None)
         [(''websocket'', AMap [(''compression'', ABool True)])] =
        (\<lparr>ReadBufferSize = 1024, WriteBufferSize = 1024, HandshakeTimeout = 10000000000,
          Compression = True, Subprotocols = [], BackendScheme = [],
          MaxMessageSize = 1048576\<rparr>, True)"
  using parseWebSocketConfig_absent_and_compression [of "[]" "\<lambda>s. None"]
    parseWebSocketConfig_absent_and_compression [of "[(''websocket'', AMap [(''compression'', ABool True)])]" "\<lambda>s. None"]
  by simp

text \<open>
  C7. Whenever the \<open>websocket\<close> entry is a map, \<open>parseWebSocketConfig\<close> returns
  \<open>true\<close>, whatever the map holds, and every field is settled by its own key alone:
  a key of the expected shape sets the field (a number that fits the integer type,
  a boolean, a string, a duration string that \<open>time.ParseDuration\<close> accepts, the
  strings of a list), and a key that is missing or of another shape, or a duration
  string that \<open>time.ParseDuration\<close> rejects, leaves the field at its default. So a
  malformed field is ignored and the fields beside it are still read.
\<close>

theorem parseWebSocketConfig_lenient:
  assumes "map_of extraConfig ''websocket'' = Some (AMap m)"
  shows "snd (parseWebSocketConfig pd extraConfig) = True
    \<and> (map_of m ''read_buffer_size'' = Some (AFloat64 f1) \<and> fits 32 (int_of_float64 f1) \<longrightarrow>
          ReadBufferSize (fst (parseWebSocketConfig pd extraConfig)) = int_of_float64 f1)
    \<and> ((\<nexists>f. map_of m ''read_buffer_size'' = Some (AFloat64 f)) \<longrightarrow>
          ReadBufferSize (fst (parseWebSocketConfig pd extraConfig)) = 1024)
    \<and> (map_of m ''write_buffer_size'' = Some (AFloat64 f2) \<and> fits 32 (int_of_float64 f2) \<longrightarrow>
          WriteBufferSize (fst (parseWebSocketConfig pd extraConfig)) = int_of_float64 f2)
    \<and> ((\<nexists>f. map_of m ''write_buffer_size'' = Some (AFloat64 f)) \<longrightarrow>
          WriteBufferSize (fst (parseWebSocketConfig pd extraConfig)) = 1024)
    \<and> (map_of m ''handshake_timeout'' = Some (AString s1) \<and> pd s1 = Some d \<longrightarrow>
          HandshakeTimeout (fst (parseWebSocketConfig pd extraConfig)) = d)
    \<and> ((\<forall>s. map_of m ''handshake_timeout'' = Some (AString s) \<longrightarrow> pd s = None) \<longrightarrow>
          HandshakeTimeout (fst (parseWebSocketConfig pd extraConfig)) = 10000000000)
    \<and> (map_of m ''compression'' = Some (ABool b) \<longrightarrow>
          Compression (fst (parseWebSocketConfig pd extraConfig)) = b)
    \<and> ((\<nexists>b. map_of m ''compression'' = Some (ABool b)) \<longrightarrow>
          Compression (fst (parseWebSocketConfig pd extraConfig)) = False)
    \<and> (map_of m ''subprotocols'' = Some (ASlice l) \<longrightarrow>
          Subprotocols (fst (parseWebSocketConfig pd extraConfig)) = stringsOf l)
    \<and> ((\<nexists>l. map_of m ''subprotocols'' = Some (ASlice l)) \<longrightarrow>
          Subprotocols (fst (parseWebSocketConfig pd extraConfig)) = [])
    \<and> (map_of m ''backend_scheme'' = Some (AString s2) \<longrightarrow>
          BackendScheme (fst (parseWebSocketConfig pd extraConfig)) = s2)
    \<and> ((\<nexists>s. map_of m ''backend_scheme'' = Some (AString s)) \<longrightarrow>
          BackendScheme (fst (parseWebSocketConfig pd extraConfig)) = [])
    \<and> (map_of m ''max_message_size'' = Some (AFloat64 f3) \<and> fits 64 (int_of_float64 f3) \<longrightarrow>
          MaxMessageSize (fst (parseWebSocketConfig pd extraConfig)) = int_of_float64 f3)
    \<and> ((\<nexists>f. map_of m ''max_message_size'' = Some (AFloat64 f)) \<longrightarrow>
          MaxMessageSize (fst (parseWebSocketConfig pd extraConfig)) = 1048576)"
proof (intro conjI impI)
  show "snd (parseWebSocketConfig pd extraConfig) = True"
    by (simp add: parseWebSocketConfig_chain [OF assms])
qed (auto simp: parseWebSocketConfig_fields [OF assms] split: option.splits any.splits)

theorem parseWebSocketConfig_lenient_witness:
  "snd (parseWebSocketConfig (\<lambda>s. if s = ''30s'' then Some 30000000000 else None)
      [(''websocket'', AMap [(''read_buffer_size'', AString ''big''),
         (''write_buffer_size'', AFloat64 2048), (''handshake_timeout'', AString ''invalid''),
         (''compression'', ABool True), (''max_message_size'', ABool True)])]) = True
   \<and> ReadBufferSize (fst (parseWebSocketConfig
      (\<lambda>s. if s = ''30s'' then Some 30000000000 else None)
      [(''websocket'', AMap [(''read_buffer_size'', AString ''big''),
         (''write_buffer_size'', AFloat64 2048), (''handshake_timeout'', AString ''invalid''),
         (''compression'', ABool True), (''max_message_size'', ABool True)])])) = 1024
   \<and> WriteBufferSize (fst (parseWebSocketConfig
      (\<lambda>s. if s = ''30s'' then Some 30000000000 else None)
      [(''websocket'', AMap [(''read_buffer_size'', AString ''big''),
         (''write_buffer_size'', AFloat64 2048), (''handshake_timeout'', AString ''invalid''),
         (''compression'', ABool True), (''max_message_size'', ABool True)])])) = 2048
   \<and> HandshakeTimeout (fst (parseWebSocketConfig
      (\<lambda>s. if s = ''30s'' then Some 30000000000 else None)
      [(''websocket'', AMap [(''read_buffer_size'', AString ''big''),
         (''write_buffer_size'', AFloat64 2048), (''handshake_timeout'', AString ''invalid''),
         (''compression'', ABool True), (''max_message_size'', ABool True)])])) = 10000000000
   \<and> Compression (fst (parseWebSocketConfig
      (\<lambda>s. if s = ''30s'' then Some 30000000000 else None)
      [(''websocket'', AMap [(''read_buffer_size'', AString ''big''),
         (''write_buffer_size'', AFloat64 2048), (''handshake_timeout'', AString ''invalid''),
         (''compression'', ABool True), (''max_message_size'', ABool True)])])) = True
   \<and> MaxMessageSize (fst (parseWebSocketConfig
      (\<lambda>s. if s = ''30s'' then Some 30000000000 else None)
      [(''websocket'', AMap [(''read_buffer_size'', AString ''big''),
         (''write_buffer_size'', AFloat64 2048), (''handshake_timeout'', AString ''invalid''),
         (''compression'', ABool True), (''max_message_size'', ABool True)])])) = 1048576"
proof -
  have i: "int_of_float64 2048 = 2048"
    by (simp add: int_of_float64_def)
  have f: "fits 32 2048"
    by (simp add: fits_def)
  show ?thesis
    using parseWebSocketConfig_lenient
      [where extraConfig = "[(''websocket'', AMap [(''read_buffer_size'', AString ''big''),
         (''write_buffer_size'', AFloat64 2048), (''handshake_timeout'', AString ''invalid''),
         (''compression'', ABool True), (''max_message_size'', ABool True)])]"
        and m = "[(''read_buffer_size'', AString ''big''),
         (''write_buffer_size'', AFloat64 2048), (''handshake_timeout'', AString ''invalid''),
         (''compression'', ABool True), (''max_message_size'', ABool True)]"
        and pd = "\<lambda>s. if s = ''30s'' then Some 30000000000 else None"
        and ?f2.0 = 2048 and b = True]
      i f
    by simp
qed



text \<open>
  C9. When the endpoint has a backend, the handshake succeeds and
  \<open>connectToBackend\<close> returns an error, the handler closes the client connection
  with \<open>StatusInternalError\<close> and the reason \<open>Backend connection failed\<close> (and once
  more, by the deferred call, with the reason \<open>Internal error\<close>), and never relays.
  When the handshake fails, the handler answers \<open>400\<close> with
  \<open>WebSocket upgrade failed\<close> and does nothing else: no dial.
\<close>

theorem handleWebSocketConnection_failures:
  "(Backend cfg \<noteq> []
     \<and> websocket_Accept lib (Request c) (Subprotocols wsConfig)
          (if Compression wsConfig then CompressionContextTakeover
           else CompressionNoContextTakeover) = None
     \<and> snd (connectToBackend lib globalBackendRegistry cfg wsConfig authHeaders) = Inl err \<longrightarrow>
       handleWebSocketConnection lib globalBackendRegistry c cfg p wsConfig authHeaders =
         [EvAccept (Subprotocols wsConfig)
            (if Compression wsConfig then CompressionContextTakeover
             else CompressionNoContextTakeover)]
         @ (if MaxMessageSize wsConfig > 0
            then [EvSetReadLimit ClientConn (MaxMessageSize wsConfig)] else [])
         @ fst (connectToBackend lib globalBackendRegistry cfg wsConfig authHeaders)
         @ [EvClose ClientConn StatusInternalError ''Backend connection failed'', EvCancel,
            EvClose ClientConn StatusInternalError ''Internal error'']
       \<and> EvRelay \<notin> set (handleWebSocketConnection lib globalBackendRegistry c cfg p wsConfig
            authHeaders))
   \<and> (Backend cfg \<noteq> []
     \<and> websocket_Accept lib (Request c) (Subprotocols wsConfig)
          (if Compression wsConfig then CompressionContextTakeover
           else CompressionNoContextTakeover) = Some err \<longrightarrow>
       handleWebSocketConnection lib globalBackendRegistry c cfg p wsConfig authHeaders =
         [EvAccept (Subprotocols wsConfig)
            (if Compression wsConfig then CompressionContextTakeover
             else CompressionNoContextTakeover),
          EvJSON StatusBadRequest ''WebSocket upgrade failed''])"
proof (intro conjI impI)
  assume a: "Backend cfg \<noteq> []
     \<and> websocket_Accept lib (Request c) (Subprotocols wsConfig)
          (if Compression wsConfig then CompressionContextTakeover
           else CompressionNoContextTakeover) = None
     \<and> snd (connectToBackend lib globalBackendRegistry cfg wsConfig authHeaders) = Inl err"
  then have f: "snd (connectToBackend lib globalBackendRegistry cfg wsConfig authHeaders) = Inl err"
    by simp
  from a show e: "handleWebSocketConnection lib globalBackendRegistry c cfg p wsConfig authHeaders =
         [EvAccept (Subprotocols wsConfig)
            (if Compression wsConfig then CompressionContextTakeover
             else CompressionNoContextTakeover)]
         @ (if MaxMessageSize wsConfig > 0
            then [EvSetReadLimit ClientConn (MaxMessageSize wsConfig)] else [])
         @ fst (connectToBackend lib globalBackendRegistry cfg wsConfig authHeaders)
         @ [EvClose ClientConn StatusInternalError ''Backend connection failed'', EvCancel,
            EvClose ClientConn StatusInternalError ''Internal error'']"
    by (simp add: handleWebSocketConnection_def Let_def handleConnectionLifecycle_failed [OF f])
  show "EvRelay \<notin> set (handleWebSocketConnection lib globalBackendRegistry c cfg p wsConfig
            authHeaders)"
    unfolding e using connectToBackend_failed_events [OF f] by auto
next
  assume "Backend cfg \<noteq> []
     \<and> websocket_Accept lib (Request c) (Subprotocols wsConfig)
          (if Compression wsConfig then CompressionContextTakeover
           else CompressionNoContextTakeover) = Some err"
  then show "handleWebSocketConnection lib globalBackendRegistry c cfg p wsConfig authHeaders =
         [EvAccept (Subprotocols wsConfig)
            (if Compression wsConfig then CompressionContextTakeover
             else CompressionNoContextTakeover),
          EvJSON StatusBadRequest ''WebSocket upgrade failed'']"
    by (simp add: handleWebSocketConnection_def Let_def)
qed

theorem handleWebSocketConnection_failures_witness:
  "handleWebSocketConnection (sampleLibrary True False) None sampleUpgrade sampleEndpoint ()
       defaultConfig [(''X-User-Id'', ''u1'')]
     = [EvAccept [] CompressionNoContextTakeover,
        EvSetReadLimit ClientConn 1048576,
        EvDial ''wss://chat.internal:8443/v1/chat'' [(''X-User-Id'', [''u1''])],
        EvClose ClientConn 1011 ''Backend connection failed'',
        EvCancel,
        EvClose ClientConn 1011 ''Internal error'']
   \<and> handleWebSocketConnection (sampleLibrary False True) None sampleUpgrade sampleEndpoint ()
       defaultConfig [(''X-User-Id'', ''u1'')]
     = [EvAccept [] CompressionNoContextTakeover, EvJSON 400 ''WebSocket upgrade failed'']"
proof -
  have b: "Backend sampleEndpoint \<noteq> []"
    by (simp add: sampleEndpoint_def)
  have c: "connectToBackend (sampleLibrary True False) None sampleEndpoint defaultConfig
      [(''X-User-Id'', ''u1'')]
      = ([EvDial ''wss://chat.internal:8443/v1/chat'' [(''X-User-Id'', [''u1''])]],
         Inl (ErrConnect ''wss://chat.internal:8443/v1/chat'' (LibError ''dial'')))"
    by code_simp
  have d: "Subprotocols defaultConfig = []" "Compression defaultConfig = False"
    "MaxMessageSize defaultConfig = 1048576"
    by (simp_all add: defaultConfig_def)
  have a: "websocket_Accept (sampleLibrary True False) r s m = None"
    "websocket_Accept (sampleLibrary False True) r s m = Some (LibError ''handshake'')" for r s m
    by (simp_all add: sampleLibrary_def)
  show ?thesis
    using
      handleWebSocketConnection_failures [where lib = "sampleLibrary True False"
        and globalBackendRegistry = None and c = sampleUpgrade and cfg = sampleEndpoint
        and p = "()" and wsConfig = defaultConfig and authHeaders = "[(''X-User-Id'', ''u1'')]"
        and err = "ErrConnect ''wss://chat.internal:8443/v1/chat'' (LibError ''dial'')"]
      handleWebSocketConnection_failures [where lib = "sampleLibrary False True"
        and globalBackendRegistry = None and c = sampleUpgrade and cfg = sampleEndpoint
        and p = "()" and wsConfig = defaultConfig and authHeaders = "[(''X-User-Id'', ''u1'')]"
        and err = "LibError ''handshake''"]
      a b c d
    by (simp add: StatusInternalError_def StatusBadRequest_def)
qed

text \<open>
  C10. With an empty \<open>Backend\<close> array, \<open>handleWebSocketConnection\<close> answers \<open>500\<close>
  with \<open>No backend configured\<close> and does nothing else: no handshake, no address
  resolution, no dial. So does the wrapped handler on an upgrade request to a
  websocket endpoint, whatever else the extra configuration holds (the keys
  \<open>backend\<close> and \<open>backend_path\<close> included).
\<close>

theorem handleWebSocketConnection_no_backend:
  "(Backend cfg = [] \<longrightarrow>
      handleWebSocketConnection lib globalBackendRegistry c cfg p wsConfig authHeaders =
        [EvJSON StatusInternalServerError ''No backend configured''])
   \<and> (Backend cfg = []
       \<and> parseWebSocketConfig (time_ParseDuration lib) (ExtraConfig cfg) = (wsConfig, True)
       \<and> isWebSocketUpgrade lib (Request c) \<longrightarrow>
      HandlerWrapper lib globalBackendRegistry standardHandlerFactory cfg p c =
        [EvJSON 500 ''No backend configured''])"
  by (simp add: HandlerWrapper_def handleWebSocketConnection_def StatusInternalServerError_def)

theorem handleWebSocketConnection_no_backend_witness:
  "HandlerWrapper (sampleLibrary True True) (Some [(''albus'', ''ws://albus.internal:9000'')])
       sampleStandard
       \<lparr>Endpoint = ''/ws/chat'', Backend = [],
        ExtraConfig = [(''websocket'', AMap []), (''backend'', AString ''albus''),
          (''backend_path'', AString ''/api/v1/chat/'')]\<rparr> () sampleUpgrade
     = [EvJSON 500 ''No backend configured'']"
proof -
  have p: "parseWebSocketConfig (time_ParseDuration (sampleLibrary True True))
      (ExtraConfig \<lparr>Endpoint = ''/ws/chat'', Backend = [],
        ExtraConfig = [(''websocket'', AMap []), (''backend'', AString ''albus''),
          (''backend_path'', AString ''/api/v1/chat/'')]\<rparr>) = (defaultConfig, True)"
    by code_simp
  have u: "isWebSocketUpgrade (sampleLibrary True True) (Request sampleUpgrade)"
    by code_simp
  show ?thesis
    using
      handleWebSocketConnection_no_backend [where lib = "sampleLibrary True True"
        and globalBackendRegistry = "Some [(''albus'', ''ws://albus.internal:9000'')]"
        and standardHandlerFactory = sampleStandard and p = "()" and c = sampleUpgrade
        and wsConfig = defaultConfig
        and cfg = "\<lparr>Endpoint = ''/ws/chat'', Backend = [],
          ExtraConfig = [(''websocket'', AMap []), (''backend'', AString ''albus''),
            (''backend_path'', AString ''/api/v1/chat/'')]\<rparr>"]
      p u
    by simp
qed

end
